theory Spec2Isabelle
  imports Complex_Main "HOL-Library.Sublist"
begin

section \<open>JavaScript strings and regular expressions\<close>

text \<open>
  Strings are modelled as lists of ASCII characters.  The source only ever compares
  against ASCII keywords and patterns, so \<open>toLowerCase\<close> and \<open>toUpperCase\<close> are the
  ASCII case maps; every other character is left as it is.
\<close>

definition toLowerChar :: "char \<Rightarrow> char" where
  "toLowerChar c =
     (case map_of (zip ''ABCDEFGHIJKLMNOPQRSTUVWXYZ'' ''abcdefghijklmnopqrstuvwxyz'') c of
        Some d \<Rightarrow> d
      | None \<Rightarrow> c)"

definition toUpperChar :: "char \<Rightarrow> char" where
  "toUpperChar c =
     (case map_of (zip ''abcdefghijklmnopqrstuvwxyz'' ''ABCDEFGHIJKLMNOPQRSTUVWXYZ'') c of
        Some d \<Rightarrow> d
      | None \<Rightarrow> c)"

definition toLowerCase :: "string \<Rightarrow> string" where
  "toLowerCase s = map toLowerChar s"

definition toUpperCase :: "string \<Rightarrow> string" where
  "toUpperCase s = map toUpperChar s"

text \<open>\<open>s.startsWith(p)\<close> and \<open>s.includes(p)\<close>.\<close>

primrec startsWith :: "string \<Rightarrow> string \<Rightarrow> bool" where
  "startsWith s [] = True"
| "startsWith s (p # ps) =
     (case s of [] \<Rightarrow> False | c # cs \<Rightarrow> if c = p then startsWith cs ps else False)"

primrec includesStr :: "string \<Rightarrow> string \<Rightarrow> bool" where
  "includesStr [] p = (p = [])"
| "includesStr (c # cs) p = (if startsWith (c # cs) p then True else includesStr cs p)"

text \<open>
  The regular expressions of the source use literals, alternatives, sequences and
  repetitions of a character class (\<open>[a-z0-9]+\<close>, \<open>[0-9]{1,3}\<close>, \<open>s?\<close>), nothing else,
  apart from one back-reference that is modelled by hand further down.  \<open>rxTest r s\<close> is
  \<open>r.test(s)\<close> for a regular expression without flags: some substring of \<open>s\<close> matches.
  The matcher tries the alternatives in the order of a backtracking engine (the longest
  repetition first) and passes the rest of the subject to a continuation.
  \<open>rxTestI\<close> is the same for the flag \<open>i\<close>; all patterns of the source are written in
  lower case, so the subject is lower-cased first.
\<close>

datatype cls = In string | NotIn string

fun inCls :: "cls \<Rightarrow> char \<Rightarrow> bool" where
  "inCls (In cs) c = (c \<in> set cs)"
| "inCls (NotIn cs) c = (c \<notin> set cs)"

datatype rx = Lit string | Rep cls nat "nat option" | Seq rx rx | Alt rx rx

fun repMatch :: "cls \<Rightarrow> nat \<Rightarrow> nat option \<Rightarrow> string \<Rightarrow> (string \<Rightarrow> bool) \<Rightarrow> bool" where
  "repMatch cl lo hi [] k = (if lo = 0 then k [] else False)"
| "repMatch cl lo hi (c # cs) k =
     (if (if inCls cl c
          then if hi = Some 0 then False
               else repMatch cl (lo - 1) (map_option (\<lambda>h. h - 1) hi) cs k
          else False)
      then True
      else if lo = 0 then k (c # cs) else False)"

primrec rxMatch :: "rx \<Rightarrow> string \<Rightarrow> (string \<Rightarrow> bool) \<Rightarrow> bool" where
  "rxMatch (Lit p) s k = (if startsWith s p then k (drop (length p) s) else False)"
| "rxMatch (Rep cl lo hi) s k = repMatch cl lo hi s k"
| "rxMatch (Seq a b) s k = rxMatch a s (\<lambda>r. rxMatch b r k)"
| "rxMatch (Alt a b) s k = (if rxMatch a s k then True else rxMatch b s k)"

primrec rxTest :: "rx \<Rightarrow> string \<Rightarrow> bool" where
  "rxTest r [] = rxMatch r [] (\<lambda>_. True)"
| "rxTest r (c # cs) = (if rxMatch r (c # cs) (\<lambda>_. True) then True else rxTest r cs)"

definition rxTestI :: "rx \<Rightarrow> string \<Rightarrow> bool" where
  "rxTestI r s = rxTest r (toLowerCase s)"

definition digits :: string where
  "digits = ''0123456789''"

definition alnum :: string where
  "alnum = ''abcdefghijklmnopqrstuvwxyz0123456789''"

text \<open>The class \<open>\s\<close> on ASCII: tab, line feed, vertical tab, form feed, carriage return, space.\<close>

definition whitespace :: string where
  "whitespace = [CHR 0x09, CHR 0x0A, CHR 0x0B, CHR 0x0C, CHR 0x0D, CHR '' '']"

text \<open>Alternatives of literals, \<open>/a|b|c/\<close>.\<close>

primrec anyLit :: "string list \<Rightarrow> rx" where
  "anyLit [] = Rep (In []) 1 (Some 1)"
| "anyLit (p # ps) = (if ps = [] then Lit p else Alt (Lit p) (anyLit ps))"

text \<open>
  \<open>text.match(new RegExp(keyword, 'g'))\<close> for a literal keyword: the number of
  occurrences found from left to right, the search going on after the end of each match.
  The counter \<open>skip\<close> is the number of characters of the last match still to step over.
\<close>

fun countMatches :: "string \<Rightarrow> nat \<Rightarrow> string \<Rightarrow> nat" where
  "countMatches kw skip [] = 0"
| "countMatches kw skip (c # cs) =
     (if 0 < skip then countMatches kw (skip - 1) cs
      else if startsWith (c # cs) kw then 1 + countMatches kw (length kw - 1) cs
      else countMatches kw 0 cs)"


section \<open>The decision-tree classifier module\<close>

subsection \<open>URLAnalyzer\<close>

text \<open>
  The URL pattern \<open>/https?:\/\/[^\s<>"{}|\\^`\[\]]+/gi\<close> of \<open>extractUrls\<close>.  \<open>urlAt s\<close>
  is the match that starts at the head of \<open>s\<close>, if there is one; \<open>extractUrlsFrom\<close>
  collects the matches from left to right.  Both callers pass lower-cased text.
\<close>

definition urlChars :: cls where
  "urlChars = NotIn (whitespace @ [CHR ''<'', CHR ''>'', CHR 0x22, CHR ''{'', CHR ''}'', CHR ''|'',
     CHR 0x5C, CHR ''^'', CHR 0x60, CHR ''['', CHR '']''])"

definition urlAt :: "string \<Rightarrow> string option" where
  "urlAt s =
     (if startsWith s ''https://'' \<and> takeWhile (inCls urlChars) (drop 8 s) \<noteq> []
      then Some (''https://'' @ takeWhile (inCls urlChars) (drop 8 s))
      else if startsWith s ''http://'' \<and> takeWhile (inCls urlChars) (drop 7 s) \<noteq> []
      then Some (''http://'' @ takeWhile (inCls urlChars) (drop 7 s))
      else None)"

fun extractUrlsFrom :: "nat \<Rightarrow> string \<Rightarrow> string list" where
  "extractUrlsFrom skip [] = []"
| "extractUrlsFrom skip (c # cs) =
     (if 0 < skip then extractUrlsFrom (skip - 1) cs
      else case urlAt (c # cs) of
        Some u \<Rightarrow> u # extractUrlsFrom (length u - 1) cs
      | None \<Rightarrow> extractUrlsFrom 0 cs)"

definition extractUrls :: "string \<Rightarrow> string list" where
  "extractUrls txt = (if txt = [] then [] else extractUrlsFrom 0 txt)"

text \<open>
  \<open>extractDomain\<close>: the first group of \<open>/https?:\/\/([^\/]+)/i\<close>, lower-cased, without a
  leading \<open>www.\<close>; \<open>None\<close> is the source's \<open>null\<close>.
\<close>

fun hostMatch :: "string \<Rightarrow> string option" where
  "hostMatch [] = None"
| "hostMatch (c # cs) =
     (if startsWith (c # cs) ''https://'' \<and> takeWhile (\<lambda>x. x \<noteq> CHR ''/'') (drop 8 (c # cs)) \<noteq> []
      then Some (takeWhile (\<lambda>x. x \<noteq> CHR ''/'') (drop 8 (c # cs)))
      else if startsWith (c # cs) ''http://'' \<and> takeWhile (\<lambda>x. x \<noteq> CHR ''/'') (drop 7 (c # cs)) \<noteq> []
      then Some (takeWhile (\<lambda>x. x \<noteq> CHR ''/'') (drop 7 (c # cs)))
      else hostMatch cs)"

definition extractDomain :: "string \<Rightarrow> string option" where
  "extractDomain url =
     (case hostMatch (toLowerCase url) of
        None \<Rightarrow> None
      | Some h \<Rightarrow> Some (if startsWith h ''www.'' then drop 4 h else h))"

text \<open>\<open>extractDomainFromEmail\<close>: \<open>email.split('@')[1]\<close>, lower-cased.\<close>

definition extractDomainFromEmail :: "string \<Rightarrow> string option" where
  "extractDomainFromEmail email =
     (if email = [] \<or> CHR ''@'' \<notin> set email then None
      else Some (toLowerCase (takeWhile (\<lambda>x. x \<noteq> CHR ''@'') (tl (dropWhile (\<lambda>x. x \<noteq> CHR ''@'') email)))))"

text \<open>A string option used as a condition: \<open>null\<close> and the empty string are falsy.\<close>

fun truthy :: "string option \<Rightarrow> bool" where
  "truthy None = False"
| "truthy (Some s) = (s \<noteq> [])"

definition suspiciousPatterns :: "rx list" where
  "suspiciousPatterns =
     [Seq (Rep (In alnum) 1 None) (Seq (Lit ''-'') (Seq (Rep (In alnum) 1 None)
        (Seq (Lit ''.'') (anyLit [''com'', ''net'', ''org''])))),
      anyLit [''free'', ''click'', ''link'', ''verify'', ''secure'']]"

definition hasSuspiciousPatterns :: "string list \<Rightarrow> bool" where
  "hasSuspiciousPatterns urls = list_ex (\<lambda>url. list_ex (\<lambda>pattern. rxTestI pattern url) suspiciousPatterns) urls"

definition shortenerPatterns :: "rx list" where
  "shortenerPatterns = [anyLit [''bit.ly'', ''tinyurl'', ''t.co'', ''goo.gl'', ''short.link'', ''ow.ly'', ''is.gd'']]"

definition hasUrlShorteners :: "string list \<Rightarrow> bool" where
  "hasUrlShorteners urls = list_ex (\<lambda>url. list_ex (\<lambda>pattern. rxTestI pattern url) shortenerPatterns) urls"

definition ipPattern :: rx where
  "ipPattern =
     Seq (Rep (In digits) 1 (Some 3)) (Seq (Lit ''.'') (Seq (Rep (In digits) 1 (Some 3)) (Seq (Lit ''.'')
       (Seq (Rep (In digits) 1 (Some 3)) (Seq (Lit ''.'') (Rep (In digits) 1 (Some 3)))))))"

definition hasIpAddresses :: "string list \<Rightarrow> bool" where
  "hasIpAddresses urls = list_ex (\<lambda>url. rxTest ipPattern url) urls"

definition hasHttpLinks :: "string list \<Rightarrow> bool" where
  "hasHttpLinks urls = list_ex (\<lambda>url. startsWith url ''http://'') urls"

definition checkDomainMismatch :: "string list \<Rightarrow> string \<Rightarrow> bool" where
  "checkDomainMismatch urls senderEmail =
     (if urls = [] \<or> senderEmail = [] then False
      else if \<not> truthy (extractDomainFromEmail senderEmail) then False
      else list_ex (\<lambda>url. truthy (extractDomain url) \<and>
              extractDomain url \<noteq> extractDomainFromEmail senderEmail) urls)"

text \<open>
  \<open>analyzeAuthenticity\<close>: the body of the loop over the URLs, then the loop, then the
  function with its early return and its clamp.
\<close>

definition authenticityStep :: "string \<Rightarrow> int \<Rightarrow> string \<Rightarrow> int" where
  "authenticityStep senderEmail authenticityScore url =
     (let urlDomain = extractDomain url;
          senderDomain = extractDomainFromEmail senderEmail;
          s1 = (if truthy senderDomain \<and> truthy urlDomain \<and> urlDomain \<noteq> senderDomain
                then authenticityScore - 30 else authenticityScore);
          s2 = (if hasSuspiciousPatterns [url] then s1 - 25 else s1);
          s3 = (if hasUrlShorteners [url] then s2 - 20 else s2);
          s4 = (if hasIpAddresses [url] then s3 - 35 else s3);
          s5 = (if hasHttpLinks [url] then s4 - 15 else s4)
      in s5)"

primrec authenticityLoop :: "string \<Rightarrow> string list \<Rightarrow> int \<Rightarrow> int" where
  "authenticityLoop senderEmail [] authenticityScore = authenticityScore"
| "authenticityLoop senderEmail (url # urls) authenticityScore =
     authenticityLoop senderEmail urls (authenticityStep senderEmail authenticityScore url)"

definition analyzeAuthenticity :: "string list \<Rightarrow> string \<Rightarrow> int" where
  "analyzeAuthenticity urls senderEmail =
     (if urls = [] then 100
      else max 0 (min 100 (authenticityLoop senderEmail urls 100)))"

subsection \<open>KeywordAnalyzer\<close>

definition urgencyKeywordList :: "string list" where
  "urgencyKeywordList = [''urgent'', ''immediate'', ''critical'', ''asap'', ''action required'',
     ''verify now'', ''confirm immediately'', ''expires soon'', ''limited time'']"

definition credentialKeywordList :: "string list" where
  "credentialKeywordList = [''password'', ''credentials'', ''login'', ''account'', ''verify account'',
     ''update account'', ''suspended'', ''locked'', ''reset password'']"

definition financialKeywordList :: "string list" where
  "financialKeywordList = [''payment'', ''invoice'', ''refund'', ''transaction'', ''wire transfer'',
     ''unauthorized charge'', ''billing'', ''overdue'']"

definition securityKeywordList :: "string list" where
  "securityKeywordList = [''security breach'', ''unauthorized access'', ''suspicious activity'',
     ''fraud detected'', ''verify identity'', ''security alert'']"

definition threatKeywordList :: "string list" where
  "threatKeywordList = [''account closed'', ''terminate'', ''expire'', ''delete'', ''permanent'',
     ''legal action'', ''suspended'']"

definition callToActionKeywordList :: "string list" where
  "callToActionKeywordList = [''click here'', ''verify'', ''confirm'', ''update'', ''reactivate'',
     ''restore'', ''unlock'', ''click the link'']"

definition suspiciousPhraseList :: "string list" where
  "suspiciousPhraseList = [''click the link below'', ''verify your identity'', ''confirm your account'',
     ''update your information'', ''your account has been'']"

definition authorityKeywordList :: "string list" where
  "authorityKeywordList = [''bank'', ''irs'', ''fbi'', ''government'', ''court'', ''legal'', ''police'',
     ''federal'', ''official'']"

definition scarcityKeywordList :: "string list" where
  "scarcityKeywordList = [''limited time'', ''expires soon'', ''last chance'', ''only today'',
     ''act now'', ''don't miss'']"

definition consistencyKeywordList :: "string list" where
  "consistencyKeywordList = [''your account'', ''your profile'', ''your information'', ''we noticed'',
     ''your data'', ''your details'']"

text \<open>\<open>countKeywords\<close>: the loop over the keywords adds the matches of each one.\<close>

primrec countKeywordsLoop :: "string \<Rightarrow> string list \<Rightarrow> nat \<Rightarrow> nat" where
  "countKeywordsLoop lowerText [] n = n"
| "countKeywordsLoop lowerText (keyword # keywords) n =
     countKeywordsLoop lowerText keywords (n + countMatches keyword 0 lowerText)"

definition countKeywords :: "string \<Rightarrow> string list \<Rightarrow> nat" where
  "countKeywords txt keywords = countKeywordsLoop (toLowerCase txt) keywords 0"

definition countUrgencyKeywords :: "string \<Rightarrow> string \<Rightarrow> nat" where
  "countUrgencyKeywords subject content = countKeywords (subject @ '' '' @ content) urgencyKeywordList"

definition countCredentialKeywords :: "string \<Rightarrow> string \<Rightarrow> nat" where
  "countCredentialKeywords subject content = countKeywords (subject @ '' '' @ content) credentialKeywordList"

definition countFinancialKeywords :: "string \<Rightarrow> string \<Rightarrow> nat" where
  "countFinancialKeywords subject content = countKeywords (subject @ '' '' @ content) financialKeywordList"

definition countSecurityKeywords :: "string \<Rightarrow> string \<Rightarrow> nat" where
  "countSecurityKeywords subject content = countKeywords (subject @ '' '' @ content) securityKeywordList"

definition countThreatKeywords :: "string \<Rightarrow> string \<Rightarrow> nat" where
  "countThreatKeywords subject content = countKeywords (subject @ '' '' @ content) threatKeywordList"

definition countCallToActionKeywords :: "string \<Rightarrow> nat" where
  "countCallToActionKeywords content = countKeywords content callToActionKeywordList"

definition countSuspiciousPhrases :: "string \<Rightarrow> nat" where
  "countSuspiciousPhrases content = countKeywords content suspiciousPhraseList"

definition hasAuthorityImpersonation :: "string \<Rightarrow> bool" where
  "hasAuthorityImpersonation content = (0 < countKeywords content authorityKeywordList)"

definition hasScarcityTactics :: "string \<Rightarrow> bool" where
  "hasScarcityTactics content = (0 < countKeywords content scarcityKeywordList)"

definition hasConsistencyTactics :: "string \<Rightarrow> bool" where
  "hasConsistencyTactics content = (2 \<le> countKeywords content consistencyKeywordList)"

subsection \<open>SenderAnalyzer\<close>

definition senderSuspiciousPatterns :: "rx list" where
  "senderSuspiciousPatterns =
     [anyLit [''noreply'', ''no-reply'', ''donotreply''],
      Alt (Seq (Lit ''support'') (Rep (In digits) 1 (Some 1)))
        (Alt (Seq (Lit ''security'') (Rep (In digits) 1 (Some 1)))
             (Seq (Lit ''admin'') (Rep (In digits) 1 (Some 1)))),
      Seq (Rep (In ''abcdefghijklmnopqrstuvwxyz'') 1 None) (Seq (Rep (In digits) 1 None) (Lit ''@''))]"

definition hasSuspiciousPattern :: "string \<Rightarrow> bool" where
  "hasSuspiciousPattern senderEmail = list_ex (\<lambda>pattern. rxTestI pattern senderEmail) senderSuspiciousPatterns"

definition trustedDomains :: "string list" where
  "trustedDomains = [''securebank.com'', ''bank.com'', ''company.com'', ''corp.com'']"

definition analyzeDomainReputation :: "string \<Rightarrow> int" where
  "analyzeDomainReputation senderEmail =
     (if senderEmail = [] \<or> \<not> includesStr senderEmail ''@'' then 50
      else let domain = toLowerCase (takeWhile (\<lambda>x. x \<noteq> CHR ''@'') (tl (dropWhile (\<lambda>x. x \<noteq> CHR ''@'') senderEmail)))
           in if list_ex (\<lambda>td. includesStr domain td) trustedDomains then 90
              else if length domain < 8 \<or> includesStr domain ''free'' \<or> includesStr domain ''click'' then 30
              else 60)"

definition senderAnalyzeAuthenticity :: "string \<Rightarrow> string \<Rightarrow> int" where
  "senderAnalyzeAuthenticity senderEmail senderName =
     (if senderEmail = [] then 50
      else let s0 = 100;
               s1 = (if hasSuspiciousPattern senderEmail then s0 - 30 else s0);
               domainRep = analyzeDomainReputation senderEmail;
               s2 = s1 + (domainRep - 50);
               s3 = (if includesStr senderEmail ''noreply'' \<or> includesStr senderEmail ''no-reply''
                     then s2 - 10 else s2);
               s4 = (if rxTest (Rep (In digits) 4 None) senderEmail then s3 - 15 else s3)
           in max 0 (min 100 s4))"

subsection \<open>GrammarAnalyzer\<close>

text \<open>
  \<open>content.split(/\s+/)\<close>: the pieces between runs of whitespace; a run at the start or at
  the end of the text leaves an empty piece there, and the empty text gives one empty
  piece.  \<open>cur\<close> is the piece being read (reversed), \<open>inWs\<close> says that the last character
  was whitespace.
\<close>

fun splitWs :: "string \<Rightarrow> bool \<Rightarrow> string \<Rightarrow> string list" where
  "splitWs cur inWs [] = [rev cur]"
| "splitWs cur inWs (c # cs) =
     (if c \<in> set whitespace
      then (if inWs then splitWs cur True cs else rev cur # splitWs [] True cs)
      else splitWs (c # cur) False cs)"

definition grammarMistakes :: "rx list" where
  "grammarMistakes = [Lit ''youre account'', Lit ''your account is been'', Lit ''please to click'',
     Lit ''kindly do the needful'', Lit ''urgent require'', Lit ''is been'', Lit ''has been been'']"

primrec grammarMistakeLoop :: "string \<Rightarrow> rx list \<Rightarrow> int \<Rightarrow> int" where
  "grammarMistakeLoop content [] score = score"
| "grammarMistakeLoop content (mistake # mistakes) score =
     grammarMistakeLoop content mistakes (if rxTestI mistake content then score - 15 else score)"

text \<open>
  The comparisons \<open>allCapsWords > words.length * 0.1\<close> and \<open>specialCharRatio > 0.1\<close> are
  written over the integers (\<open>10 * a > n\<close>), the value they have in exact arithmetic.
\<close>

definition analyzeGrammar :: "string \<Rightarrow> int" where
  "analyzeGrammar content =
     (if content = [] \<or> length content < 10 then 50
      else let s1 = grammarMistakeLoop content grammarMistakes 100;
               words = splitWs [] False content;
               allCapsWords = length (filter (\<lambda>w. w = toUpperCase w \<and> 2 < length w) words);
               s2 = (if length words < 10 * allCapsWords then s1 - 10 else s1)
           in max 0 (min 100 s2))"

text \<open>
  \<open>content.match(/(.)\1{3,}/g)\<close>: one match for every run of at least four equal
  characters other than line terminators.  \<open>longRuns p n s\<close> counts the runs that reach
  length four in \<open>s\<close>, after a run of \<open>n\<close> characters \<open>p\<close>.
\<close>

fun longRuns :: "char option \<Rightarrow> nat \<Rightarrow> string \<Rightarrow> nat" where
  "longRuns p n [] = 0"
| "longRuns p n (c # cs) =
     (if p = Some c \<and> c \<notin> set [CHR 0x0A, CHR 0x0D]
      then (if n + 1 = 4 then 1 + longRuns p (n + 1) cs else longRuns p (n + 1) cs)
      else longRuns (Some c) 1 cs)"

definition specialChars :: string where
  "specialChars = ''!@#$%^&*()_+-=[]{};':'' @ [CHR 0x22, CHR 0x5C] @ ''|,.<>/?''"

definition analyzeSpelling :: "string \<Rightarrow> int" where
  "analyzeSpelling content =
     (if content = [] then 50
      else if 2 < longRuns None 0 content then 40
      else if length content < 10 * length (filter (\<lambda>c. c \<in> set specialChars) content) then 45
      else 70)"

definition hasProfessionalGreeting :: "string \<Rightarrow> bool" where
  "hasProfessionalGreeting content =
     list_ex (\<lambda>g. includesStr (toLowerCase content) g)
       [''dear'', ''hello'', ''hi'', ''greetings'', ''good morning'', ''good afternoon'']"

definition hasProfessionalClosing :: "string \<Rightarrow> bool" where
  "hasProfessionalClosing content =
     list_ex (\<lambda>c. includesStr (toLowerCase content) c)
       [''sincerely'', ''best regards'', ''regards'', ''yours truly'', ''respectfully'',
        ''thank you'', ''thanks'']"

definition professionalIndicators :: "string list" where
  "professionalIndicators = [''please'', ''thank you'', ''sincerely'', ''best regards'', ''regards'',
     ''dear'', ''yours truly'', ''respectfully'']"

primrec indicatorLoop :: "string \<Rightarrow> string list \<Rightarrow> int \<Rightarrow> int" where
  "indicatorLoop content [] score = score"
| "indicatorLoop content (indicator # indicators) score =
     indicatorLoop content indicators
       (if includesStr (toLowerCase content) indicator then score + 5 else score)"

definition phonePattern :: rx where
  "phonePattern =
     Seq (Rep (In digits) 3 (Some 3)) (Seq (Rep (In (''-.'' @ whitespace)) 0 (Some 1))
       (Seq (Rep (In digits) 3 (Some 3)) (Seq (Rep (In (''-.'' @ whitespace)) 0 (Some 1))
         (Rep (In digits) 4 (Some 4)))))"

definition analyzeProfessionalism :: "string \<Rightarrow> int" where
  "analyzeProfessionalism content =
     (if content = [] then 50
      else let s1 = indicatorLoop content professionalIndicators 50;
               s2 = (if hasProfessionalGreeting content \<and> hasProfessionalClosing content
                     then s1 + 20 else s1);
               s3 = (if rxTest phonePattern content then s2 + 10 else s2);
               s4 = (if rxTestI (anyLit [''company'', ''corporation'', ''inc.'', ''llc'', ''limited'']) content
                     then s3 + 5 else s3)
           in min 100 s4)"

definition hasExcessivePunctuation :: "string \<Rightarrow> bool" where
  "hasExcessivePunctuation subject =
     (if subject = [] then False else rxTest (Rep (In ''!?'') 2 None) subject)"

subsection \<open>DecisionTreeClassifier\<close>

text \<open>
  An email as the classifiers read it.  A field that is absent (\<open>undefined\<close> or \<open>null\<close>)
  is \<open>None\<close>; \<open>email.subject || ''\<close> is \<open>orEmpty\<close>.
\<close>

record email =
  subject :: "string option"
  content :: "string option"
  sender :: "string option"
  senderEmail :: "string option"
  urls :: "string list option"

fun orEmpty :: "string option \<Rightarrow> string" where
  "orEmpty None = []"
| "orEmpty (Some s) = s"

text \<open>
  The feature object.  Fields whose names are also method names of the analyzers carry
  a prime.  The field \<open>hasAttachments\<close> is left out: nothing reads it.
\<close>

record features =
  hasUrls :: bool
  urlCount :: nat
  urlAuthenticityScore :: int
  hasSuspiciousUrls :: bool
  hasUrlShorteners' :: bool
  hasIpAddresses' :: bool
  hasHttpLinks' :: bool
  urlDomainMismatch :: bool
  urgencyKeywords :: nat
  credentialKeywords :: nat
  financialKeywords :: nat
  securityKeywords :: nat
  threatKeywords :: nat
  callToActionKeywords :: nat
  suspiciousPhrases :: nat
  senderAuthenticityScore :: int
  hasSuspiciousSenderPattern :: bool
  senderDomainReputation :: int
  grammarScore :: int
  spellingScore :: int
  professionalismScore :: int
  hasProfessionalGreeting' :: bool
  hasProfessionalClosing' :: bool
  authorityImpersonation :: bool
  scarcityTactics :: bool
  consistencyTactics :: bool
  subjectLength :: nat
  contentLength :: nat
  hasExcessivePunctuation' :: bool
  subjectAllCaps :: bool
  totalUrgencyScore :: int
  totalSuspicionScore :: int

text \<open>
  \<open>extractFeatures\<close> returns the object literal, in which both combined scores are
  \<open>0\<close>.  The statements that follow the \<open>return\<close> in the source (the weighted sums
  assigned to \<open>features.totalUrgencyScore\<close> and \<open>features.totalSuspicionScore\<close>) are never
  executed, so they are no part of the function.
\<close>

definition extractFeatures :: "email \<Rightarrow> features" where
  "extractFeatures e =
     (let subject' = toLowerCase (orEmpty (subject e));
          content' = toLowerCase (orEmpty (content e));
          sender' = toLowerCase (orEmpty (sender e));
          senderEmail' = toLowerCase (orEmpty (senderEmail e));
          urls' = (case urls e of Some us \<Rightarrow> us | None \<Rightarrow> extractUrls content')
      in \<lparr> hasUrls = 0 < length urls',
           urlCount = length urls',
           urlAuthenticityScore = analyzeAuthenticity urls' senderEmail',
           hasSuspiciousUrls = hasSuspiciousPatterns urls',
           hasUrlShorteners' = hasUrlShorteners urls',
           hasIpAddresses' = hasIpAddresses urls',
           hasHttpLinks' = hasHttpLinks urls',
           urlDomainMismatch = checkDomainMismatch urls' senderEmail',
           urgencyKeywords = countUrgencyKeywords subject' content',
           credentialKeywords = countCredentialKeywords subject' content',
           financialKeywords = countFinancialKeywords subject' content',
           securityKeywords = countSecurityKeywords subject' content',
           threatKeywords = countThreatKeywords subject' content',
           callToActionKeywords = countCallToActionKeywords content',
           suspiciousPhrases = countSuspiciousPhrases content',
           senderAuthenticityScore = senderAnalyzeAuthenticity senderEmail' sender',
           hasSuspiciousSenderPattern = hasSuspiciousPattern senderEmail',
           senderDomainReputation = analyzeDomainReputation senderEmail',
           grammarScore = analyzeGrammar content',
           spellingScore = analyzeSpelling content',
           professionalismScore = analyzeProfessionalism content',
           hasProfessionalGreeting' = hasProfessionalGreeting content',
           hasProfessionalClosing' = hasProfessionalClosing content',
           authorityImpersonation = hasAuthorityImpersonation content',
           scarcityTactics = hasScarcityTactics content',
           consistencyTactics = hasConsistencyTactics content',
           subjectLength = length subject',
           contentLength = length content',
           hasExcessivePunctuation' = hasExcessivePunctuation subject',
           subjectAllCaps = (subject' = toUpperCase subject' \<and> 10 < length subject'),
           totalUrgencyScore = 0,
           totalSuspicionScore = 0 \<rparr>)"

datatype risk_level = low | medium | high

record verdict =
  riskLevel :: risk_level
  riskScore :: int
  confidence :: real
  reasoning :: string

text \<open>
  A node of the tree is a leaf (an object with a \<open>riskLevel\<close>) or an inner node with a
  condition and two optional branches.  A condition returns \<open>true\<close>, \<open>false\<close> or \<open>null\<close>
  (\<open>None\<close>).
\<close>

datatype node = Leaf verdict | Node "features \<Rightarrow> bool option" "node option" "node option"

definition fallback :: verdict where
  "fallback = \<lparr> riskLevel = low, riskScore = 30, confidence = 0.5,
     reasoning = ''Unable to classify - defaulting to low risk'' \<rparr>"

fun traverseTree :: "features \<Rightarrow> node \<Rightarrow> verdict" where
  "traverseTree f (Leaf v) = v"
| "traverseTree f (Node c (Some t) (Some e)) =
     (if c f = Some True then traverseTree f t else traverseTree f e)"
| "traverseTree f (Node c (Some t) None) =
     (if c f = Some True then traverseTree f t else fallback)"
| "traverseTree f (Node c None (Some e)) = traverseTree f e"
| "traverseTree f (Node c None None) = fallback"

definition buildDecisionTree :: node where
  "buildDecisionTree =
     Node (\<lambda>f. if hasUrls f then Some (urlAuthenticityScore f < 30) else None)
       (Some (Leaf \<lparr> riskLevel = high, riskScore = 85, confidence = 0.9,
          reasoning = ''Suspicious or unauthentic URLs detected in email'' \<rparr>))
       (Some (Node (\<lambda>f. Some (2 \<le> credentialKeywords f \<and> 2 \<le> urgencyKeywords f))
         (Some (Leaf \<lparr> riskLevel = high, riskScore = 80, confidence = 0.85,
            reasoning = ''Credential requests combined with urgency indicators'' \<rparr>))
         (Some (Node (\<lambda>f. Some (urlDomainMismatch f))
           (Some (Leaf \<lparr> riskLevel = high, riskScore = 75, confidence = 0.8,
              reasoning = ''URL domain does not match sender domain'' \<rparr>))
           (Some (Node (\<lambda>f. Some (20 \<le> totalSuspicionScore f))
             (Some (Leaf \<lparr> riskLevel = high, riskScore = 70, confidence = 0.75,
                reasoning = ''Multiple suspicious indicators detected'' \<rparr>))
             (Some (Node (\<lambda>f. Some (senderAuthenticityScore f < 40 \<and>
                                      (1 \<le> credentialKeywords f \<or> 1 \<le> securityKeywords f)))
               (Some (Leaf \<lparr> riskLevel = medium, riskScore = 55, confidence = 0.7,
                  reasoning = ''Suspicious sender with risk indicators'' \<rparr>))
               (Some (Node (\<lambda>f. Some (15 \<le> totalUrgencyScore f \<and> professionalismScore f < 60))
                 (Some (Leaf \<lparr> riskLevel = medium, riskScore = 50, confidence = 0.65,
                    reasoning = ''High urgency with low professionalism indicators'' \<rparr>))
                 (Some (Node (\<lambda>f. Some (hasSuspiciousUrls f \<and> 30 \<le> urlAuthenticityScore f \<and>
                                          urlAuthenticityScore f < 60))
                   (Some (Leaf \<lparr> riskLevel = medium, riskScore = 45, confidence = 0.6,
                      reasoning = ''Some suspicious URL patterns detected'' \<rparr>))
                   (Some (Node (\<lambda>f. Some (grammarScore f < 50 \<and>
                                            (1 \<le> credentialKeywords f \<or> 1 \<le> financialKeywords f)))
                     (Some (Leaf \<lparr> riskLevel = medium, riskScore = 40, confidence = 0.55,
                        reasoning = ''Poor grammar combined with risk keywords'' \<rparr>))
                     (Some (Node (\<lambda>f. Some (70 \<le> professionalismScore f \<and> 60 \<le> grammarScore f \<and>
                                              60 \<le> senderAuthenticityScore f))
                       (Some (Leaf \<lparr> riskLevel = low, riskScore = 25, confidence = 0.8,
                          reasoning = ''Professional email with good authenticity indicators'' \<rparr>))
                       (Some (Leaf \<lparr> riskLevel = low, riskScore = 30, confidence = 0.6,
                          reasoning = ''No major risk indicators detected'' \<rparr>))))))))))))))))))"

text \<open>The result of \<open>classify\<close>: the verdict of the tree and the features it was given.\<close>

record classification = verdict +
  features :: features

definition classify :: "email \<Rightarrow> classification" where
  "classify e =
     (let fs = extractFeatures e;
          result = traverseTree fs buildDecisionTree
      in \<lparr> riskLevel = riskLevel result, riskScore = riskScore result,
           confidence = confidence result, reasoning = reasoning result, features = fs \<rparr>)"

subsection \<open>The decision list of the specification\<close>

text \<open>
  The priority list of the specification (section 4.2), as an ordered list of guarded
  verdicts of which the first that applies is returned.  It is parameterised by the
  guard of its seventh rule.  \<open>specDecisionList\<close> takes that rule as the specification
  words it, \<open>30 \<le> urlAuthenticityScore < 60\<close>; \<open>guardedDecisionList\<close> asks for a
  suspicious URL pattern in addition.
\<close>

type_synonym triple = "risk_level \<times> int \<times> real"

definition decisionRules :: "(features \<Rightarrow> bool) \<Rightarrow> ((features \<Rightarrow> bool) \<times> triple) list" where
  "decisionRules rule7 =
     [(\<lambda>f. hasUrls f \<and> urlAuthenticityScore f < 30, (high, 85, 0.9)),
      (\<lambda>f. 2 \<le> credentialKeywords f \<and> 2 \<le> urgencyKeywords f, (high, 80, 0.85)),
      (\<lambda>f. urlDomainMismatch f, (high, 75, 0.8)),
      (\<lambda>f. 20 \<le> totalSuspicionScore f, (high, 70, 0.75)),
      (\<lambda>f. senderAuthenticityScore f < 40 \<and> (1 \<le> credentialKeywords f \<or> 1 \<le> securityKeywords f),
         (medium, 55, 0.7)),
      (\<lambda>f. 15 \<le> totalUrgencyScore f \<and> professionalismScore f < 60, (medium, 50, 0.65)),
      (rule7, (medium, 45, 0.6)),
      (\<lambda>f. grammarScore f < 50 \<and> (1 \<le> credentialKeywords f \<or> 1 \<le> financialKeywords f),
         (medium, 40, 0.55)),
      (\<lambda>f. 70 \<le> professionalismScore f \<and> 60 \<le> grammarScore f \<and> 60 \<le> senderAuthenticityScore f,
         (low, 25, 0.8))]"

primrec firstMatch :: "((features \<Rightarrow> bool) \<times> triple) list \<Rightarrow> triple \<Rightarrow> features \<Rightarrow> triple" where
  "firstMatch [] dflt f = dflt"
| "firstMatch (r # rs) dflt f = (if fst r f then snd r else firstMatch rs dflt f)"

definition specDecisionList :: "features \<Rightarrow> triple" where
  "specDecisionList f =
     firstMatch (decisionRules (\<lambda>f. 30 \<le> urlAuthenticityScore f \<and> urlAuthenticityScore f < 60))
       (low, 30, 0.6) f"

definition guardedDecisionList :: "features \<Rightarrow> triple" where
  "guardedDecisionList f =
     firstMatch (decisionRules (\<lambda>f. hasSuspiciousUrls f \<and> 30 \<le> urlAuthenticityScore f \<and>
         urlAuthenticityScore f < 60))
       (low, 30, 0.6) f"

definition verdictTriple :: "'a verdict_scheme \<Rightarrow> triple" where
  "verdictTriple v = (riskLevel v, riskScore v, confidence v)"

section \<open>The defense agent's inline scorer\<close>

text \<open>
  \<open>AutonomousDefenseAgent.classifyEmail\<close> and its own \<open>analyzeUrlAuthenticity\<close>.
  \<open>senderEmail.split('@')[1]?.toLowerCase()\<close> is \<open>senderDomainOf\<close>: \<open>None\<close> when the
  address has no \<open>@\<close>.  The host of a URL is taken as in the classifier module, but a
  leading \<open>www.\<close> stays.
\<close>

definition senderDomainOf :: "string \<Rightarrow> string option" where
  "senderDomainOf senderEmail' =
     (if CHR ''@'' \<in> set senderEmail'
      then Some (toLowerCase (takeWhile (\<lambda>x. x \<noteq> CHR ''@'') (tl (dropWhile (\<lambda>x. x \<noteq> CHR ''@'') senderEmail'))))
      else None)"

definition inlineUrlStep :: "string \<Rightarrow> int \<Rightarrow> string \<Rightarrow> int" where
  "inlineUrlStep senderEmail' score url =
     (let senderDomain = senderDomainOf senderEmail';
          urlDomain = hostMatch (toLowerCase url);
          s1 = (if truthy senderDomain \<and> truthy urlDomain \<and> urlDomain \<noteq> senderDomain
                then score - 30 else score);
          s2 = (if rxTestI (anyLit [''bit.ly'', ''tinyurl'', ''t.co'', ''goo.gl'']) url then s1 - 20 else s1);
          s3 = (if rxTest ipPattern url then s2 - 35 else s2);
          s4 = (if startsWith url ''http://'' then s3 - 15 else s3)
      in s4)"

primrec inlineUrlLoop :: "string \<Rightarrow> string list \<Rightarrow> int \<Rightarrow> int" where
  "inlineUrlLoop senderEmail' [] score = score"
| "inlineUrlLoop senderEmail' (url # us) score =
     inlineUrlLoop senderEmail' us (inlineUrlStep senderEmail' score url)"

definition analyzeUrlAuthenticity :: "string list \<Rightarrow> string \<Rightarrow> int" where
  "analyzeUrlAuthenticity us senderEmail' =
     (if us = [] then 100
      else max 0 (min 100 (inlineUrlLoop senderEmail' us 100)))"

definition generateReasoning :: "risk_level \<Rightarrow> string" where
  "generateReasoning lvl =
     (if lvl = high then ''Suspicious or unauthentic URLs detected in email''
      else if lvl = medium then ''Suspicious sender with risk indicators''
      else ''No major risk indicators detected'')"

definition knownLegitimateDomains :: "string list" where
  "knownLegitimateDomains = [''securebank.com'', ''firstnational.com'', ''metrocu.org'',
     ''pacifictrust.com'', ''communityfirst.com'']"

text \<open>
  \<open>classifyEmail\<close> in two parts: \<open>accumulatedRisk\<close> is the value of the variable
  \<open>riskScore\<close> before it is normalised (the base score 25 and the additions for the
  URLs, the keywords and the sender); \<open>classifyEmail\<close> normalises it and derives the
  level, the confidence and the reasoning.
\<close>

definition accumulatedRisk :: "email \<Rightarrow> int" where
  "accumulatedRisk e =
     (let subject' = toLowerCase (orEmpty (subject e));
          content' = toLowerCase (orEmpty (content e));
          senderEmail' = toLowerCase (orEmpty (senderEmail e));
          urls' = (case urls e of Some us \<Rightarrow> us | None \<Rightarrow> extractUrls content');
          r0 = 25;
          r1 = (if 0 < length urls'
                then let urlAuthenticity = analyzeUrlAuthenticity urls' senderEmail'
                     in if urlAuthenticity < 30 then r0 + 45
                        else if urlAuthenticity < 60 then r0 + 30
                        else if urlAuthenticity < 80 then r0 + 15
                        else if urlAuthenticity < 100 then r0 + 5
                        else r0
                else r0);
          urgencyCount = length (filter (\<lambda>kw. includesStr subject' kw \<or> includesStr content' kw)
             [''urgent'', ''immediate'', ''critical'', ''asap'', ''action required'']);
          credentialCount = length (filter (\<lambda>kw. includesStr subject' kw \<or> includesStr content' kw)
             [''password'', ''credentials'', ''login'', ''verify account'']);
          securityCount = length (filter (\<lambda>kw. includesStr content' kw)
             [''security breach'', ''unauthorized access'', ''suspicious activity'']);
          r2 = (if 2 \<le> urgencyCount \<and> 2 \<le> credentialCount then r1 + 35
                else if 2 \<le> credentialCount \<and> 1 \<le> urgencyCount then r1 + 30
                else if 1 \<le> credentialCount \<and> 1 \<le> urgencyCount then r1 + 20
                else if 1 \<le> securityCount \<and> 1 \<le> urgencyCount then r1 + 18
                else if 1 \<le> securityCount then r1 + 12
                else if 1 \<le> credentialCount then r1 + 8
                else if 2 \<le> urgencyCount then r1 + 10
                else if 1 \<le> urgencyCount then r1 + 5
                else r1);
          r3 = (if includesStr senderEmail' ''noreply'' \<or> includesStr senderEmail' ''no-reply''
                then r2 + 3 else r2);
          senderDomain = senderDomainOf senderEmail';
          r4 = (if truthy senderDomain \<and> senderDomain \<notin> Some ` set knownLegitimateDomains
                then r3 + 10 else r3)
      in r4)"

definition classifyEmail :: "email \<Rightarrow> verdict" where
  "classifyEmail e =
     (let score = min 100 (max 0 (accumulatedRisk e));
          lvl = (if 75 \<le> score then high else if 50 \<le> score then medium else low)
      in \<lparr> riskLevel = lvl, riskScore = score,
           confidence = (if 70 < score then 0.9 else if 40 < score then 0.7 else 0.6),
           reasoning = generateReasoning lvl \<rparr>)"

section \<open>The penalties of one URL in the two scorers\<close>

text \<open>
  What one pass of the loop of \<open>URLAnalyzer.analyzeAuthenticity\<close> subtracts for a URL,
  and what one pass of the loop of the defense agent's \<open>analyzeUrlAuthenticity\<close>
  subtracts; both are read off the source.
\<close>

definition urlAnalyzerPenalty :: "string \<Rightarrow> string \<Rightarrow> int" where
  "urlAnalyzerPenalty senderEmail' url =
     (if truthy (extractDomainFromEmail senderEmail') \<and> truthy (extractDomain url) \<and>
         extractDomain url \<noteq> extractDomainFromEmail senderEmail' then 30 else 0) +
     (if hasSuspiciousPatterns [url] then 25 else 0) +
     (if hasUrlShorteners [url] then 20 else 0) +
     (if hasIpAddresses [url] then 35 else 0) +
     (if hasHttpLinks [url] then 15 else 0)"

definition inlineUrlPenalty :: "string \<Rightarrow> string \<Rightarrow> int" where
  "inlineUrlPenalty senderEmail' url =
     (if truthy (senderDomainOf senderEmail') \<and> truthy (hostMatch (toLowerCase url)) \<and>
         hostMatch (toLowerCase url) \<noteq> senderDomainOf senderEmail' then 30 else 0) +
     (if rxTestI (anyLit [''bit.ly'', ''tinyurl'', ''t.co'', ''goo.gl'']) url then 20 else 0) +
     (if rxTest ipPattern url then 35 else 0) +
     (if startsWith url ''http://'' then 15 else 0)"

section \<open>The URL authenticity algorithm of the specification\<close>





























section \<open>StrategyTrainer\<close>

text \<open>
  The trainer keeps three tables: \<open>strategyScores\<close> (by strategy key),
  \<open>personaVulnerabilities\<close> (by \<open>String(persona.id)\<close>) and \<open>combinations\<close> (by
  strategy key and persona id).  Their entries share the counters and rates; a strategy
  entry adds \<open>score\<close>, a persona entry \<open>vulnerabilityScore\<close>.  Rates are real numbers:
  the arithmetic of the model is exact.  The time stamp \<open>lastUpdated\<close> is left out.
  The tables are JavaScript objects read and written by key.  A strategy key and a
  combination key contain the separator \<open>|\<close> and a persona id is the decimal form of a
  number in the source, so none of them is the name of a property that an object
  inherits; the three tables are therefore maps.  The tables of \<open>getEmailStatuses\<close> are
  keyed by email ids, which are arbitrary strings; they are modelled with their
  inherited properties further down.
\<close>

record strategy =
  model :: string
  attackLevel :: string
  urgencyLevel :: string

record persona =
  personaId :: string
  personaName :: string
  accessLevel :: string

record stats =
  attempts :: nat
  successes :: nat
  bypassRate :: real
  clickRate :: real

record strategyData = stats +
  score :: real

record personaData = stats +
  vulnerabilityScore :: real

record trainer =
  allStrategies :: "strategy list"
  allPersonas :: "persona list"
  strategyScores :: "string \<rightharpoonup> strategyData"
  personaVulnerabilities :: "string \<rightharpoonup> personaData"
  combinations :: "string \<rightharpoonup> stats"

definition minAttemptsForLearning :: nat where
  "minAttemptsForLearning = 3"

definition learningDecay :: real where
  "learningDecay = 0.95"

definition getStrategyKey :: "strategy \<Rightarrow> string" where
  "getStrategyKey s = model s @ ''|'' @ attackLevel s @ ''|'' @ urgencyLevel s"

definition getCombinationKey :: "strategy \<Rightarrow> string \<Rightarrow> string" where
  "getCombinationKey s pid = getStrategyKey s @ ''|'' @ pid"

text \<open>
  The learned patterns read from the file at start-up, \<open>None\<close> when there is no file or
  it cannot be read; a table missing from the file is empty.
\<close>

record learned =
  learnedStrategyScores :: "(string \<rightharpoonup> strategyData) option"
  learnedPersonaVulnerabilities :: "(string \<rightharpoonup> personaData) option"
  learnedCombinations :: "(string \<rightharpoonup> stats) option"

definition orEmptyMap :: "('k \<rightharpoonup> 'v) option \<Rightarrow> ('k \<rightharpoonup> 'v)" where
  "orEmptyMap m = (case m of Some t \<Rightarrow> t | None \<Rightarrow> Map.empty)"

definition loadLearnedPatterns :: "learned option \<Rightarrow> trainer \<Rightarrow> trainer" where
  "loadLearnedPatterns file t =
     (case file of
        None \<Rightarrow> t
      | Some l \<Rightarrow> t \<lparr> strategyScores := orEmptyMap (learnedStrategyScores l),
                     personaVulnerabilities := orEmptyMap (learnedPersonaVulnerabilities l),
                     combinations := orEmptyMap (learnedCombinations l) \<rparr>)"

definition defaultBypass :: "strategy \<Rightarrow> real" where
  "defaultBypass s =
     (if attackLevel s = ''expert'' then 40
      else if attackLevel s = ''advanced'' then 30
      else if attackLevel s = ''basic'' then 20
      else 20)"

definition defaultVulnerability :: "persona \<Rightarrow> real" where
  "defaultVulnerability p =
     (if accessLevel p = ''Critical'' then 50
      else if accessLevel p = ''High'' then 40
      else if accessLevel p = ''Medium'' then 30
      else if accessLevel p = ''Low'' then 20
      else 30)"

definition initStrategy :: "strategy \<Rightarrow> trainer \<Rightarrow> trainer" where
  "initStrategy s t =
     (let key = getStrategyKey s
      in if strategyScores t key = None
         then t \<lparr> strategyScores := (strategyScores t)(key \<mapsto>
                \<lparr> attempts = 0, successes = 0, bypassRate = defaultBypass s, clickRate = 0,
                  score = defaultBypass s \<rparr>) \<rparr>
         else t)"

definition initPersona :: "persona \<Rightarrow> trainer \<Rightarrow> trainer" where
  "initPersona p t =
     (let personaIdStr = personaId p
      in if personaVulnerabilities t personaIdStr = None
         then t \<lparr> personaVulnerabilities := (personaVulnerabilities t)(personaIdStr \<mapsto>
                \<lparr> attempts = 0, successes = 0, bypassRate = defaultVulnerability p, clickRate = 0,
                  vulnerabilityScore = defaultVulnerability p \<rparr>) \<rparr>
         else t)"

definition initializeDefaultScores :: "trainer \<Rightarrow> trainer" where
  "initializeDefaultScores t = fold initPersona (allPersonas t) (fold initStrategy (allStrategies t) t)"

definition newTrainer :: "strategy list \<Rightarrow> persona list \<Rightarrow> learned option \<Rightarrow> trainer" where
  "newTrainer strategies personas file =
     initializeDefaultScores (loadLearnedPatterns file
       \<lparr> allStrategies = strategies, allPersonas = personas, strategyScores = Map.empty,
         personaVulnerabilities = Map.empty, combinations = Map.empty \<rparr>)"

definition calculateSuccessScore :: "real \<Rightarrow> real \<Rightarrow> real" where
  "calculateSuccessScore bypassRate' clickRate' =
     (let bypassWeight = 0.7;
          clickWeight = 0.3;
          bypassScore = bypassRate' / 100;
          clickScore = clickRate' / 100
      in (bypassScore * bypassWeight + clickScore * clickWeight) * 100)"

subsection \<open>Reading the outcome of the deployed emails\<close>

record event =
  eventName :: string
  phantom :: bool

record inboxEmail =
  inboxId :: string
  status :: "string option"
  clickedFlag :: bool
  events :: "event list option"

record outcome =
  bypassed :: bool
  clicked :: bool

text \<open>
  \<open>getEmailStatuses\<close> keeps two tables, \<open>emailMap\<close> and \<open>statuses\<close>, in plain JavaScript
  objects (\<open>{}\<close>) keyed by email ids.  Such an object has the prototype
  \<open>Object.prototype\<close>: reading \<open>obj[key]\<close> takes the object's own property when there
  is one and otherwise the property of that name found along the prototype chain, and
  writing \<open>obj['__proto__'] = v\<close> stores nothing but makes the object \<open>v\<close> the new
  prototype.  \<open>objectPrototypeProps\<close> are the names that \<open>Object.prototype\<close> defines;
  all of their values are functions, except \<open>__proto__\<close> which reads the prototype.
  A \<open>plainObject\<close> is the own properties together with the object that has replaced
  the prototype, if any.  Both tables only ever store objects.
\<close>

definition objectPrototypeProps :: "string list" where
  "objectPrototypeProps = [''constructor'', ''__defineGetter__'', ''__defineSetter__'',
     ''hasOwnProperty'', ''__lookupGetter__'', ''__lookupSetter__'', ''isPrototypeOf'',
     ''propertyIsEnumerable'', ''toString'', ''valueOf'', ''__proto__'', ''toLocaleString'']"

record 'v plainObject =
  ownProps :: "string \<rightharpoonup> 'v"
  protoObj :: "'v option"

definition emptyObject :: "'v plainObject" where
  "emptyObject = \<lparr> ownProps = Map.empty, protoObj = None \<rparr>"

definition setProp :: "string \<Rightarrow> 'v \<Rightarrow> 'v plainObject \<Rightarrow> 'v plainObject" where
  "setProp key v obj =
     (if key = ''__proto__'' then obj \<lparr> protoObj := Some v \<rparr>
      else obj \<lparr> ownProps := (ownProps obj)(key \<mapsto> v) \<rparr>)"

text \<open>
  An email of the inbox is an object with the properties \<open>id\<close>, \<open>status\<close> (\<open>None\<close> when
  it is missing or \<open>null\<close>), \<open>clicked\<close> (a boolean when present; \<open>clickedFlag\<close> is
  \<open>email.clicked === true\<close>) and \<open>events\<close> (an array when present).

  \<open>emailMap[emailId]\<close> is one of three things: nothing (\<open>undefined\<close> or another falsy
  value), an email of the inbox, or a truthy value that is not an email: a function of
  \<open>Object.prototype\<close>, \<open>Object.prototype\<close> itself, or, when an email has replaced the
  prototype, the value of one of its properties (a string, \<open>true\<close>, an array).
  \<open>emailProperty e key\<close> tells whether the property \<open>key\<close> read from the email \<open>e\<close>,
  which inherits from \<open>Object.prototype\<close> in turn, is truthy.
\<close>

datatype found = NotFound | FoundEmail inboxEmail | FoundOther

definition emailProperty :: "inboxEmail \<Rightarrow> string \<Rightarrow> bool" where
  "emailProperty e key =
     (if key = ''id'' then inboxId e \<noteq> []
      else if key = ''status'' then truthy (status e)
      else if key = ''clicked'' then clickedFlag e
      else if key = ''events'' then events e \<noteq> None
      else key \<in> set objectPrototypeProps)"

definition lookupEmail :: "inboxEmail plainObject \<Rightarrow> string \<Rightarrow> found" where
  "lookupEmail emailMap key =
     (if key = ''__proto__''
      then (case protoObj emailMap of Some e \<Rightarrow> FoundEmail e | None \<Rightarrow> FoundOther)
      else case ownProps emailMap key of
             Some email \<Rightarrow> FoundEmail email
           | None \<Rightarrow>
               (case protoObj emailMap of
                  Some e \<Rightarrow> if emailProperty e key then FoundOther else NotFound
                | None \<Rightarrow> if key \<in> set objectPrototypeProps then FoundOther else NotFound))"

text \<open>
  The outcome computed from an email of the inbox, and from what \<open>emailMap[emailId]\<close>
  gave.  A truthy value that is not an email has none of the properties \<open>status\<close>,
  \<open>clicked\<close> and \<open>events\<close>: its \<open>status\<close> is \<open>undefined\<close>, which counts as bypassed, and
  \<open>clicked\<close> comes out as \<open>undefined\<close>, which is falsy.
\<close>

definition emailOutcome :: "inboxEmail \<Rightarrow> outcome" where
  "emailOutcome email =
     \<lparr> bypassed = (status email = Some ''delivered'' \<or> status email = None \<or>
                    (status email \<noteq> Some ''blocked'' \<and> status email \<noteq> Some ''reported'')),
       clicked = (clickedFlag email \<or>
                  (case events email of
                     None \<Rightarrow> False
                   | Some evs \<Rightarrow> list_ex (\<lambda>ev. eventName ev = ''clicked'' \<and> \<not> phantom ev) evs)) \<rparr>"

fun foundOutcome :: "found \<Rightarrow> outcome" where
  "foundOutcome (FoundEmail email) = emailOutcome email"
| "foundOutcome FoundOther = \<lparr> bypassed = True, clicked = False \<rparr>"
| "foundOutcome NotFound = \<lparr> bypassed = False, clicked = False \<rparr>"

text \<open>
  \<open>getEmailStatuses\<close>.  The inbox is \<open>None\<close> when the file is missing or cannot be
  read; the result is then the empty object.
\<close>

definition getEmailStatuses :: "inboxEmail list option \<Rightarrow> string list \<Rightarrow> outcome plainObject" where
  "getEmailStatuses inbox emailIds =
     (case inbox of
        None \<Rightarrow> emptyObject
      | Some emails \<Rightarrow>
          (let emailMap = fold (\<lambda>email. setProp (inboxId email) email) emails emptyObject
           in fold (\<lambda>emailId. setProp emailId (foundOutcome (lookupEmail emailMap emailId)))
                emailIds emptyObject))"

subsection \<open>learnFromCycle\<close>

text \<open>
  A generated email carries its strategy, its id and \<open>String(targetPersona.id)\<close>
  (\<open>None\<close> when there is no target persona or its id is \<open>null\<close>).
\<close>

record deployedEmail = strategy +
  emailId :: string
  targetPersonaId :: "string option"

text \<open>
  The source updates \<open>strategyData\<close>, \<open>personaData\<close> and \<open>comboData\<close> with the same
  statements, written out three times: the counter, then the two rates (exponential
  decay once the attempts exceed \<open>minAttemptsForLearning\<close>, the moving average before),
  then the successes.  \<open>recordOutcome\<close> is that block.
\<close>

definition recordOutcome :: "bool \<Rightarrow> bool \<Rightarrow> 'a stats_scheme \<Rightarrow> 'a stats_scheme" where
  "recordOutcome emailBypassed emailClicked d0 =
     (let d1 = d0 \<lparr> attempts := attempts d0 + 1 \<rparr>;
          d2 = (if minAttemptsForLearning < attempts d1
                then (let oldWeight = learningDecay;
                          newWeight = 1 - learningDecay
                      in d1 \<lparr> bypassRate := bypassRate d1 * oldWeight +
                                 (if emailBypassed then 100 * newWeight else 0 * newWeight),
                              clickRate := clickRate d1 * oldWeight +
                                 (if emailClicked then 100 * newWeight else 0 * newWeight) \<rparr>)
                else (let currentBypass = (bypassRate d1 * real (attempts d1 - 1) +
                             (if emailBypassed then 100 else 0)) / real (attempts d1);
                          currentClick = (clickRate d1 * real (attempts d1 - 1) +
                             (if emailClicked then 100 else 0)) / real (attempts d1)
                      in d1 \<lparr> bypassRate := currentBypass, clickRate := currentClick \<rparr>));
          d3 = (if emailBypassed then d2 \<lparr> successes := successes d2 + 1 \<rparr> else d2)
      in d3)"

definition updateStrategy :: "string \<Rightarrow> bool \<Rightarrow> bool \<Rightarrow> trainer \<Rightarrow> trainer" where
  "updateStrategy strategyKey emailBypassed emailClicked t =
     (let strategyData0 = (case strategyScores t strategyKey of
              Some d \<Rightarrow> d
            | None \<Rightarrow> \<lparr> attempts = 0, successes = 0, bypassRate = 0, clickRate = 0, score = 0 \<rparr>);
          strategyData1 = recordOutcome emailBypassed emailClicked strategyData0;
          strategyData2 = strategyData1 \<lparr> score :=
              calculateSuccessScore (bypassRate strategyData1) (clickRate strategyData1) \<rparr>
      in t \<lparr> strategyScores := (strategyScores t)(strategyKey \<mapsto> strategyData2) \<rparr>)"

definition updatePersona :: "string \<Rightarrow> bool \<Rightarrow> bool \<Rightarrow> trainer \<Rightarrow> trainer" where
  "updatePersona pid emailBypassed emailClicked t =
     (let personaData0 = (case personaVulnerabilities t pid of
              Some d \<Rightarrow> d
            | None \<Rightarrow> \<lparr> attempts = 0, successes = 0, bypassRate = 0, clickRate = 0,
                        vulnerabilityScore = 0 \<rparr>);
          personaData1 = recordOutcome emailBypassed emailClicked personaData0;
          personaData2 = personaData1 \<lparr> vulnerabilityScore :=
              calculateSuccessScore (bypassRate personaData1) (clickRate personaData1) \<rparr>
      in t \<lparr> personaVulnerabilities := (personaVulnerabilities t)(pid \<mapsto> personaData2) \<rparr>)"

definition updateCombination :: "string \<Rightarrow> bool \<Rightarrow> bool \<Rightarrow> trainer \<Rightarrow> trainer" where
  "updateCombination combinationKey emailBypassed emailClicked t =
     (let comboData0 = (case combinations t combinationKey of
              Some d \<Rightarrow> d
            | None \<Rightarrow> \<lparr> attempts = 0, successes = 0, bypassRate = 0, clickRate = 0 \<rparr>);
          comboData1 = recordOutcome emailBypassed emailClicked comboData0
      in t \<lparr> combinations := (combinations t)(combinationKey \<mapsto> comboData1) \<rparr>)"

text \<open>
  The body of the loop over the generated emails.  \<open>emailStrategy\<close> is the object
  \<open>{model: email.model, attackLevel: email.attackLevel, urgencyLevel: email.urgencyLevel}\<close>,
  \<open>lookupStatus\<close> is \<open>emailStatuses[email.id] || { bypassed: false, clicked: false }\<close>
  with its properties \<open>bypassed\<close> and \<open>clicked\<close> as the loop reads them.  The table is
  a plain object again.  Its own property, or the outcome object that has replaced its
  prototype when the id is \<open>__proto__\<close>, is the outcome.  Anything else found along the
  prototype chain (a function of \<open>Object.prototype\<close>, \<open>Object.prototype\<close> itself, the
  boolean \<open>bypassed\<close> or \<open>clicked\<close> of a replaced prototype) has no properties
  \<open>bypassed\<close> and \<open>clicked\<close>: both read as \<open>undefined\<close>, which the loop treats as
  false, as it does the default.
\<close>

definition emailStrategy :: "deployedEmail \<Rightarrow> strategy" where
  "emailStrategy email =
     \<lparr> model = model email, attackLevel = attackLevel email, urgencyLevel = urgencyLevel email \<rparr>"

definition lookupStatus :: "outcome plainObject \<Rightarrow> deployedEmail \<Rightarrow> outcome" where
  "lookupStatus emailStatuses email =
     (if emailId email = ''__proto__''
      then (case protoObj emailStatuses of
              Some st \<Rightarrow> st
            | None \<Rightarrow> \<lparr> bypassed = False, clicked = False \<rparr>)
      else case ownProps emailStatuses (emailId email) of
             Some st \<Rightarrow> st
           | None \<Rightarrow> \<lparr> bypassed = False, clicked = False \<rparr>)"

definition learnEmail :: "outcome plainObject \<Rightarrow> deployedEmail \<Rightarrow> trainer \<Rightarrow> trainer" where
  "learnEmail emailStatuses email t =
     (let strategy' = emailStrategy email;
          strategyKey = getStrategyKey strategy';
          pid = targetPersonaId email;
          combinationKey = (if truthy pid then Some (getCombinationKey strategy' (the pid)) else None);
          emailStatus = lookupStatus emailStatuses email;
          emailBypassed = bypassed emailStatus;
          emailClicked = clicked emailStatus;
          t1 = updateStrategy strategyKey emailBypassed emailClicked t;
          t2 = (if truthy pid then updatePersona (the pid) emailBypassed emailClicked t1 else t1);
          t3 = (case combinationKey of
              Some k \<Rightarrow> updateCombination k emailBypassed emailClicked t2
            | None \<Rightarrow> t2)
      in t3)"

text \<open>
  \<open>learnFromCycle\<close>; its arguments \<open>cycleResult\<close> and \<open>industryMetrics\<close> are not read.
  The state it returns is the one \<open>saveLearnedPatterns\<close> writes to the file.
\<close>

definition learnFromCycle :: "inboxEmail list option \<Rightarrow> deployedEmail list \<Rightarrow> trainer \<Rightarrow> trainer" where
  "learnFromCycle inbox emailsGenerated t =
     (if emailsGenerated = [] then t
      else let emailIds = map emailId emailsGenerated;
               emailStatuses = getEmailStatuses inbox emailIds
           in fold (learnEmail emailStatuses) emailsGenerated t)"

text \<open>A run of the agent: one learning step per attack cycle.\<close>

primrec learnCycles :: "(inboxEmail list option \<times> deployedEmail list) list \<Rightarrow> trainer \<Rightarrow> trainer" where
  "learnCycles [] t = t"
| "learnCycles (c # cs) t = learnCycles cs (learnFromCycle (fst c) (snd c) t)"

subsection \<open>selectBestTargets\<close>

record personaScore =
  persona :: persona
  finalScore :: real
  itemVulnerability :: real
  itemAttempts :: nat
  explorationBonus :: real

definition scorePersona :: "trainer \<Rightarrow> persona \<Rightarrow> personaScore" where
  "scorePersona t p =
     (let personaIdStr = personaId p;
          personaData' = personaVulnerabilities t personaIdStr;
          attempts' = (case personaData' of Some d \<Rightarrow> attempts d | None \<Rightarrow> 0);
          vulnerabilityScore' = (case personaData' of Some d \<Rightarrow> vulnerabilityScore d | None \<Rightarrow> 0);
          bonus = (if attempts' < minAttemptsForLearning
                   then real (minAttemptsForLearning - attempts') * 20
                   else if attempts' < minAttemptsForLearning * 2
                   then real (minAttemptsForLearning * 2 - attempts') * 10
                   else 0);
          confidence' = min (real attempts' / real minAttemptsForLearning) 1.5;
          adjustedVulnerabilityScore = vulnerabilityScore' * min confidence' 1.0
      in \<lparr> persona = p, finalScore = adjustedVulnerabilityScore + bonus,
           itemVulnerability = vulnerabilityScore', itemAttempts = attempts',
           explorationBonus = bonus \<rparr>)"

text \<open>
  \<open>personaScores.sort((a, b) => b.finalScore - a.finalScore)\<close> is a stable sort by
  descending \<open>finalScore\<close>; \<open>slice(0, count)\<close> for a count that is a natural number is
  \<open>take\<close>.
\<close>

definition selectBestTargets :: "trainer \<Rightarrow> nat \<Rightarrow> persona list" where
  "selectBestTargets t count =
     (let personaScores = map (scorePersona t) (allPersonas t);
          sorted' = sort_key (\<lambda>item. - finalScore item) personaScores;
          selected = map persona (take count sorted')
      in selected)"

subsection \<open>selectBestTargets, the older copy\<close>

text \<open>
  The second copy of the trainer in the same file sorts the personas by
  \<open>vulnerabilityScore\<close> alone, takes the first \<open>count - explorationCount\<close> of them and
  fills up to \<open>explorationCount = max 1 (floor (count * 0.2))\<close> further places with
  personas drawn at random from the rest.  \<open>Math.random\<close> is an arbitrary sequence
  \<open>rnd\<close> of natural numbers: the index drawn at a step is \<open>rnd 0\<close> modulo the length
  of \<open>remaining\<close>, which can be any index, and the later steps see the rest of the
  sequence.  \<open>floor (count * 0.2)\<close> is \<open>count div 5\<close>.  \<open>selected.includes(p)\<close> compares
  objects by identity; personas are compared by value here, which is the same as long
  as no two entries of \<open>allPersonas\<close> are equal records.
\<close>

primrec explorationLoop :: "(nat \<Rightarrow> nat) \<Rightarrow> nat \<Rightarrow> persona list \<Rightarrow> persona list \<Rightarrow> persona list" where
  "explorationLoop rnd 0 remaining selected = selected"
| "explorationLoop rnd (Suc n) remaining selected =
     (if remaining = [] then selected
      else let randomIndex = rnd 0 mod length remaining
           in explorationLoop (\<lambda>i. rnd (Suc i)) n
                (take randomIndex remaining @ drop (Suc randomIndex) remaining)
                (selected @ [remaining ! randomIndex]))"

definition selectBestTargetsOld :: "(nat \<Rightarrow> nat) \<Rightarrow> trainer \<Rightarrow> nat \<Rightarrow> persona list" where
  "selectBestTargetsOld rnd t count =
     (let sortedPersonas = sort_key (\<lambda>p. - (case personaVulnerabilities t (personaId p) of
              Some d \<Rightarrow> vulnerabilityScore d | None \<Rightarrow> 0)) (allPersonas t);
          explorationCount = max 1 (count div 5);
          exploitationCount = count - explorationCount;
          selected = take exploitationCount sortedPersonas;
          remaining = filter (\<lambda>p. p \<notin> set selected) sortedPersonas
      in explorationLoop rnd explorationCount remaining selected)"

section \<open>Notions used to state the claims about the trainer\<close>

text \<open>
  The counter of a key in a table (\<open>0\<close> for a key without entry), and the number of
  emails of a list that are recorded under a strategy key, a persona id and a
  combination key.
\<close>

definition attemptsAt :: "('k \<rightharpoonup> 'a stats_scheme) \<Rightarrow> 'k \<Rightarrow> nat" where
  "attemptsAt m k = (case m k of Some d \<Rightarrow> attempts d | None \<Rightarrow> 0)"

definition strategyCalls :: "string \<Rightarrow> deployedEmail list \<Rightarrow> nat" where
  "strategyCalls k es = length (filter (\<lambda>e. getStrategyKey (emailStrategy e) = k) es)"

definition personaCalls :: "string \<Rightarrow> deployedEmail list \<Rightarrow> nat" where
  "personaCalls k es = length (filter (\<lambda>e. truthy (targetPersonaId e) \<and> targetPersonaId e = Some k) es)"

definition combinationCalls :: "string \<Rightarrow> deployedEmail list \<Rightarrow> nat" where
  "combinationCalls k es =
     length (filter (\<lambda>e. truthy (targetPersonaId e) \<and>
        getCombinationKey (emailStrategy e) (the (targetPersonaId e)) = k) es)"

definition inRange :: "'a stats_scheme \<Rightarrow> bool" where
  "inRange d = (0 \<le> bypassRate d \<and> bypassRate d \<le> 100 \<and> 0 \<le> clickRate d \<and> clickRate d \<le> 100)"

text \<open>The entry of a key before an update: the one stored, or the fresh entry the update creates.\<close>

definition strategyBefore :: "trainer \<Rightarrow> string \<Rightarrow> strategyData" where
  "strategyBefore t k =
     (case strategyScores t k of
        Some d \<Rightarrow> d
      | None \<Rightarrow> \<lparr> attempts = 0, successes = 0, bypassRate = 0, clickRate = 0, score = 0 \<rparr>)"

definition personaBefore :: "trainer \<Rightarrow> string \<Rightarrow> personaData" where
  "personaBefore t k =
     (case personaVulnerabilities t k of
        Some d \<Rightarrow> d
      | None \<Rightarrow> \<lparr> attempts = 0, successes = 0, bypassRate = 0, clickRate = 0,
                  vulnerabilityScore = 0 \<rparr>)"

definition combinationBefore :: "trainer \<Rightarrow> string \<Rightarrow> stats" where
  "combinationBefore t k =
     (case combinations t k of
        Some d \<Rightarrow> d
      | None \<Rightarrow> \<lparr> attempts = 0, successes = 0, bypassRate = 0, clickRate = 0 \<rparr>)"

text \<open>
  The update of the rates as the specification words it (section 4.3), with its default
  parameters \<open>minAttempts = 3\<close> and \<open>decay = 0.95\<close>: the counter goes up by one; beyond
  three attempts the rate is \<open>old * 0.95 + observed * 0.05\<close>, up to three attempts the
  running mean.  \<open>observed\<close> is 100 for an outcome that holds, 0 otherwise.
\<close>

definition observed :: "bool \<Rightarrow> real" where
  "observed b = (if b then 100 else 0)"

definition specRateUpdate :: "'a stats_scheme \<Rightarrow> 'b stats_scheme \<Rightarrow> bool \<Rightarrow> bool \<Rightarrow> bool" where
  "specRateUpdate old new b c =
     (attempts new = attempts old + 1 \<and>
      (if 3 < attempts new
       then bypassRate new = bypassRate old * 0.95 + observed b * 0.05 \<and>
            clickRate new = clickRate old * 0.95 + observed c * 0.05
       else bypassRate new = (bypassRate old * real (attempts old) + observed b) / real (attempts new) \<and>
            clickRate new = (clickRate old * real (attempts old) + observed c) / real (attempts new)))"

text \<open>A sequence of recorded outcomes for one entry.\<close>

definition recordAll :: "(bool \<times> bool) list \<Rightarrow> 'a stats_scheme \<Rightarrow> 'a stats_scheme" where
  "recordAll os d = fold (\<lambda>out. recordOutcome (fst out) (snd out)) os d"


text \<open>
  A run of the agent from the default-seeded state (no file of learned patterns), and
  the emails recorded in it.
\<close>

definition seededRun :: "strategy list \<Rightarrow> persona list \<Rightarrow> (inboxEmail list option \<times> deployedEmail list) list \<Rightarrow> trainer" where
  "seededRun strategies personas cycles = learnCycles cycles (newTrainer strategies personas None)"

definition recorded :: "(inboxEmail list option \<times> deployedEmail list) list \<Rightarrow> deployedEmail list" where
  "recorded cycles = concat (map snd cycles)"

text \<open>
  Invariants of the tables: every rate is in range; every entry is untouched (no
  attempts) and in range, as after seeding.
\<close>

definition tablesInRange :: "trainer \<Rightarrow> bool" where
  "tablesInRange t =
     ((\<forall>k d. strategyScores t k = Some d \<longrightarrow> inRange d) \<and>
      (\<forall>k d. personaVulnerabilities t k = Some d \<longrightarrow> inRange d) \<and>
      (\<forall>k d. combinations t k = Some d \<longrightarrow> inRange d))"

definition freshTables :: "trainer \<Rightarrow> bool" where
  "freshTables t =
     ((\<forall>k d. strategyScores t k = Some d \<longrightarrow> attempts d = 0 \<and> inRange d) \<and>
      (\<forall>k d. personaVulnerabilities t k = Some d \<longrightarrow> attempts d = 0 \<and> inRange d) \<and>
      (\<forall>k d. combinations t k = Some d \<longrightarrow> attempts d = 0 \<and> inRange d))"

text \<open>The entry of a key exists and its composite score is \<open>0.7 * bypassRate + 0.3 * clickRate\<close>.\<close>

definition strategyScored :: "trainer \<Rightarrow> string \<Rightarrow> bool" where
  "strategyScored t k =
     (\<exists>d. strategyScores t k = Some d \<and> score d = 0.7 * bypassRate d + 0.3 * clickRate d)"

definition personaScored :: "trainer \<Rightarrow> string \<Rightarrow> bool" where
  "personaScored t k =
     (\<exists>d. personaVulnerabilities t k = Some d \<and>
          vulnerabilityScore d = 0.7 * bypassRate d + 0.3 * clickRate d)"

text \<open>The personas with their scores, sorted as \<open>selectBestTargets\<close> sorts them.\<close>

definition ranked :: "trainer \<Rightarrow> personaScore list" where
  "ranked t = sort_key (\<lambda>item. - finalScore item) (map (scorePersona t) (allPersonas t))"

text \<open>The personas sorted as the older copy of \<open>selectBestTargets\<close> sorts them.\<close>

definition byVulnerability :: "trainer \<Rightarrow> persona list" where
  "byVulnerability t =
     sort_key (\<lambda>p. - (case personaVulnerabilities t (personaId p) of
        Some d \<Rightarrow> vulnerabilityScore d | None \<Rightarrow> 0)) (allPersonas t)"

section \<open>Example inputs\<close>

text \<open>
  The email of scenario B: no URL, a plain subject, two urgency keywords (\<open>urgent\<close>,
  \<open>immediate\<close>) and two credential keywords (\<open>password\<close>, \<open>login\<close>) in the content.
\<close>

definition scenarioB_email :: email where
  "scenarioB_email =
     \<lparr> subject = Some ''Hello'',
       content = Some ''Urgent: immediate password login'',
       sender = Some ''IT Desk'',
       senderEmail = Some ''it@bank.com'',
       urls = None \<rparr>"

text \<open>An email without sender address whose only URL is a plain-http address of a host given by number.\<close>

definition numericHost_email :: email where
  "numericHost_email =
     \<lparr> subject = Some ''hello'',
       content = Some ''hello'',
       sender = None,
       senderEmail = None,
       urls = Some [''http://10.0.0.5/x''] \<rparr>"

text \<open>
  A strategy, two personas of access level High and a generated email for the first
  persona; an inbox in which that email is delivered and not clicked.
\<close>

definition expertStrategy :: strategy where
  "expertStrategy = \<lparr> model = ''m1'', attackLevel = ''expert'', urgencyLevel = ''high'' \<rparr>"

definition personaOne :: persona where
  "personaOne = \<lparr> personaId = ''1'', personaName = ''One'', accessLevel = ''High'' \<rparr>"

definition personaTwo :: persona where
  "personaTwo = \<lparr> personaId = ''2'', personaName = ''Two'', accessLevel = ''High'' \<rparr>"

definition firstEmail :: deployedEmail where
  "firstEmail = \<lparr> model = ''m1'', attackLevel = ''expert'', urgencyLevel = ''high'',
     emailId = ''email-1'', targetPersonaId = Some ''1'' \<rparr>"

definition deliveredInbox :: "inboxEmail list option" where
  "deliveredInbox = Some [\<lparr> inboxId = ''email-1'', status = Some ''delivered'', clickedFlag = False,
     events = None \<rparr>]"

definition seededTrainer :: trainer where
  "seededTrainer = newTrainer [expertStrategy] [personaOne, personaTwo] None"

text \<open>
  A ledger in which persona 1 has no attempts and persona 2 has three, both with
  \<open>vulnerabilityScore = 40\<close>.
\<close>

definition tiedTrainer :: trainer where
  "tiedTrainer =
     \<lparr> allStrategies = [expertStrategy], allPersonas = [personaOne, personaTwo],
       strategyScores = Map.empty,
       personaVulnerabilities =
         [''1'' \<mapsto> \<lparr> attempts = 0, successes = 0, bypassRate = 40, clickRate = 0,
                     vulnerabilityScore = 40 \<rparr>,
          ''2'' \<mapsto> \<lparr> attempts = 3, successes = 2, bypassRate = 200 / 3, clickRate = 0,
                     vulnerabilityScore = 40 \<rparr>],
       combinations = Map.empty \<rparr>"

text \<open>An email for the second persona; its id is not in \<open>deliveredInbox\<close>.\<close>

definition secondEmail :: deployedEmail where
  "secondEmail = \<lparr> model = ''m1'', attackLevel = ''expert'', urgencyLevel = ''high'',
     emailId = ''email-2'', targetPersonaId = Some ''2'' \<rparr>"




text \<open>
  A ledger in which persona 1 has no attempts and persona 2 has four, both with
  \<open>vulnerabilityScore = 20\<close>.
\<close>

definition fairTrainer :: trainer where
  "fairTrainer =
     \<lparr> allStrategies = [expertStrategy], allPersonas = [personaOne, personaTwo],
       strategyScores = Map.empty,
       personaVulnerabilities =
         [''1'' \<mapsto> \<lparr> attempts = 0, successes = 0, bypassRate = 20, clickRate = 0,
                     vulnerabilityScore = 20 \<rparr>,
          ''2'' \<mapsto> \<lparr> attempts = 4, successes = 1, bypassRate = 20, clickRate = 20,
                     vulnerabilityScore = 20 \<rparr>],
       combinations = Map.empty \<rparr>"

section \<open>The classifier: auxiliary facts\<close>

lemma traverse_guard:
  "traverseTree f (Node (\<lambda>f. Some (P f)) (Some (Leaf v)) (Some rest)) =
     (if P f then v else traverseTree f rest)"
  by simp

lemma traverse_root:
  "traverseTree f (Node (\<lambda>f. if A f then Some (P f) else None) (Some (Leaf v)) (Some rest)) =
     (if A f \<and> P f then v else traverseTree f rest)"
  by simp

lemma triple_if: "verdictTriple (if b then v else w) = (if b then verdictTriple v else verdictTriple w)"
  by simp

lemma triple_lit:
  "verdictTriple \<lparr> riskLevel = l, riskScore = s, confidence = c, reasoning = r \<rparr> = (l, s, c)"
  by (simp add: verdictTriple_def)

lemma tree_is_guarded_list: "verdictTriple (traverseTree f buildDecisionTree) = guardedDecisionList f"
  unfolding buildDecisionTree_def guardedDecisionList_def decisionRules_def
  by (simp only: traverse_guard traverse_root traverseTree.simps(1) triple_if triple_lit
        firstMatch.simps fst_conv snd_conv)

lemma classify_triple: "verdictTriple (classify e) = verdictTriple (traverseTree (extractFeatures e) buildDecisionTree)"
  by (simp add: classify_def verdictTriple_def Let_def)

lemma classify_features: "features (classify e) = extractFeatures e"
  by (simp add: classify_def Let_def)

lemma guarded_rule2:
  "\<not> hasUrls f \<Longrightarrow> 2 \<le> urgencyKeywords f \<Longrightarrow> 2 \<le> credentialKeywords f \<Longrightarrow>
     guardedDecisionList f = (high, 80, 0.85)"
  by (simp add: guardedDecisionList_def decisionRules_def)

text \<open>The fields of the feature object that the tree reads, one by one.\<close>

lemma extract_hasUrls:
  "hasUrls (extractFeatures e) =
     (0 < length (case urls e of Some us \<Rightarrow> us | None \<Rightarrow> extractUrls (toLowerCase (orEmpty (content e)))))"
  by (simp add: extractFeatures_def Let_def)

lemma extract_urlAuthenticityScore:
  "urlAuthenticityScore (extractFeatures e) =
     analyzeAuthenticity (case urls e of Some us \<Rightarrow> us | None \<Rightarrow> extractUrls (toLowerCase (orEmpty (content e))))
       (toLowerCase (orEmpty (senderEmail e)))"
  by (simp add: extractFeatures_def Let_def)

lemma extract_hasSuspiciousUrls:
  "hasSuspiciousUrls (extractFeatures e) =
     hasSuspiciousPatterns (case urls e of Some us \<Rightarrow> us | None \<Rightarrow> extractUrls (toLowerCase (orEmpty (content e))))"
  by (simp add: extractFeatures_def Let_def)

lemma extract_urlDomainMismatch:
  "urlDomainMismatch (extractFeatures e) =
     checkDomainMismatch (case urls e of Some us \<Rightarrow> us | None \<Rightarrow> extractUrls (toLowerCase (orEmpty (content e))))
       (toLowerCase (orEmpty (senderEmail e)))"
  by (simp add: extractFeatures_def Let_def)

lemma extract_urgencyKeywords:
  "urgencyKeywords (extractFeatures e) =
     countUrgencyKeywords (toLowerCase (orEmpty (subject e))) (toLowerCase (orEmpty (content e)))"
  by (simp add: extractFeatures_def Let_def)

lemma extract_credentialKeywords:
  "credentialKeywords (extractFeatures e) =
     countCredentialKeywords (toLowerCase (orEmpty (subject e))) (toLowerCase (orEmpty (content e)))"
  by (simp add: extractFeatures_def Let_def)

lemma extract_financialKeywords:
  "financialKeywords (extractFeatures e) =
     countFinancialKeywords (toLowerCase (orEmpty (subject e))) (toLowerCase (orEmpty (content e)))"
  by (simp add: extractFeatures_def Let_def)

lemma extract_securityKeywords:
  "securityKeywords (extractFeatures e) =
     countSecurityKeywords (toLowerCase (orEmpty (subject e))) (toLowerCase (orEmpty (content e)))"
  by (simp add: extractFeatures_def Let_def)

lemma extract_senderAuthenticityScore:
  "senderAuthenticityScore (extractFeatures e) =
     senderAnalyzeAuthenticity (toLowerCase (orEmpty (senderEmail e))) (toLowerCase (orEmpty (sender e)))"
  by (simp add: extractFeatures_def Let_def)

lemma extract_grammarScore:
  "grammarScore (extractFeatures e) = analyzeGrammar (toLowerCase (orEmpty (content e)))"
  by (simp add: extractFeatures_def Let_def)

lemma extract_professionalismScore:
  "professionalismScore (extractFeatures e) = analyzeProfessionalism (toLowerCase (orEmpty (content e)))"
  by (simp add: extractFeatures_def Let_def)

lemma extract_totals:
  "totalUrgencyScore (extractFeatures e) = 0" "totalSuspicionScore (extractFeatures e) = 0"
  by (simp_all add: extractFeatures_def Let_def)

lemmas extract_fields = extract_hasUrls extract_urlAuthenticityScore extract_hasSuspiciousUrls
  extract_urlDomainMismatch extract_urgencyKeywords extract_credentialKeywords
  extract_financialKeywords extract_securityKeywords extract_senderAuthenticityScore
  extract_grammarScore extract_professionalismScore extract_totals

lemma numericHost_fields:
  "hasUrls (extractFeatures numericHost_email)"
  "urlAuthenticityScore (extractFeatures numericHost_email) = 50"
  "\<not> hasSuspiciousUrls (extractFeatures numericHost_email)"
  "\<not> urlDomainMismatch (extractFeatures numericHost_email)"
  "urgencyKeywords (extractFeatures numericHost_email) = 0"
  "credentialKeywords (extractFeatures numericHost_email) = 0"
  "financialKeywords (extractFeatures numericHost_email) = 0"
  "securityKeywords (extractFeatures numericHost_email) = 0"
  "senderAuthenticityScore (extractFeatures numericHost_email) = 50"
  "grammarScore (extractFeatures numericHost_email) = 50"
  "professionalismScore (extractFeatures numericHost_email) = 50"
  unfolding extract_fields by code_simp+

lemma scenarioB_fields:
  "\<not> hasUrls (extractFeatures scenarioB_email)"
  "urgencyKeywords (extractFeatures scenarioB_email) = 2"
  "credentialKeywords (extractFeatures scenarioB_email) = 2"
  unfolding extract_fields by code_simp+

section \<open>Claims about the classifier\<close>

text \<open>
  Claim C1 (amended).  For every feature set the classifier is a function of the
  features, and it evaluates its checks as a decision list in the priority order of
  section 4.2 of the specification, returning the verdict (riskLevel, riskScore,
  confidence) of the first rule that applies, where the seventh rule applies only if
  \<open>hasSuspiciousUrls\<close> holds in addition to \<open>30 \<le> urlAuthenticityScore < 60\<close>.  In
  particular, for an email with no URLs, at least two urgency keywords and at least two
  credential keywords, rule 2 fires and the verdict is high, 80, 0.85.
\<close>

theorem C1_decision_list:
  "verdictTriple (traverseTree f buildDecisionTree) = guardedDecisionList f \<and>
   verdictTriple (classify e) = guardedDecisionList (extractFeatures e) \<and>
   (\<not> hasUrls f \<and> 2 \<le> urgencyKeywords f \<and> 2 \<le> credentialKeywords f \<longrightarrow>
      verdictTriple (traverseTree f buildDecisionTree) = (high, 80, 0.85)) \<and>
   (\<not> hasUrls (extractFeatures e) \<and> 2 \<le> urgencyKeywords (extractFeatures e) \<and>
    2 \<le> credentialKeywords (extractFeatures e) \<longrightarrow>
      verdictTriple (classify e) = (high, 80, 0.85))"
  by (simp add: tree_is_guarded_list classify_triple guarded_rule2)

text \<open>The email of scenario B satisfies the hypotheses, and is classified high, 80, 0.85.\<close>

theorem C1_decision_list_witness:
  "\<not> hasUrls (extractFeatures scenarioB_email) \<and>
   urgencyKeywords (extractFeatures scenarioB_email) = 2 \<and>
   credentialKeywords (extractFeatures scenarioB_email) = 2 \<and>
   verdictTriple (classify scenarioB_email) = (high, 80, 0.85)"
proof -
  have h: "\<not> hasUrls (extractFeatures scenarioB_email) \<and>
      2 \<le> urgencyKeywords (extractFeatures scenarioB_email) \<and>
      2 \<le> credentialKeywords (extractFeatures scenarioB_email)"
    by (simp add: scenarioB_fields)
  from C1_decision_list [of "extractFeatures scenarioB_email" scenarioB_email] h
  have "verdictTriple (traverseTree (extractFeatures scenarioB_email) buildDecisionTree) = (high, 80, 0.85) \<and>
      verdictTriple (classify scenarioB_email) = (high, 80, 0.85)"
    by blast
  then show ?thesis by (simp add: scenarioB_fields)
qed

text \<open>
  The claim as the specification words its seventh rule fails: an email whose only URL
  is \<open>http://10.0.0.5/x\<close> has \<open>urlAuthenticityScore = 50\<close> and no suspicious URL pattern;
  the tree passes rule 7 and ends in the default (low, 30, 0.6), where the list of the
  specification returns (medium, 45, 0.6).
\<close>

theorem C1_rule7_counterexample:
  "verdictTriple (classify numericHost_email) = (low, 30, 0.6) \<and>
   specDecisionList (features (classify numericHost_email)) = (medium, 45, 0.6)"
  by (simp add: classify_triple tree_is_guarded_list classify_features guardedDecisionList_def
        specDecisionList_def decisionRules_def numericHost_fields extract_totals)

text \<open>
  Claim C3.  The specification has \<open>totalUrgencyScore\<close> and \<open>totalSuspicionScore\<close> equal
  to weighted sums of the component features.  In the code the feature object is
  returned before the sums are assigned: both fields are \<open>0\<close> for every email, also
  for the email of scenario B, whose two urgency keywords and two credential keywords
  would give the sums \<open>6\<close> and at least \<open>8\<close>.
\<close>

theorem C3_totals_never_computed:
  "totalUrgencyScore (extractFeatures e) = 0 \<and> totalSuspicionScore (extractFeatures e) = 0 \<and>
   totalUrgencyScore (extractFeatures scenarioB_email) = 0 \<and>
   int (urgencyKeywords (extractFeatures scenarioB_email)) * 3 = 6 \<and>
   totalSuspicionScore (extractFeatures scenarioB_email) = 0 \<and>
   int (credentialKeywords (extractFeatures scenarioB_email)) * 4 = 8"
  by (simp add: extract_totals scenarioB_fields)

section \<open>The URL score: auxiliary facts\<close>

subsection \<open>Prefixes, substrings and patterns of literals\<close>


lemma startsWith_append: "startsWith (p @ r) p"
  by (induction p) auto









subsection \<open>A repetition matches a run of its class\<close>



subsection \<open>Host and scheme of a plain URL\<close>











subsection \<open>A host that is an IPv4 literal matches the number pattern\<close>








subsection \<open>A shortener name in the host is found in the URL\<close>



subsection \<open>The sender's domain\<close>




subsection \<open>The loops subtract the penalties\<close>

lemma authenticityStep_penalty:
  "authenticityStep s acc url = acc - urlAnalyzerPenalty s url"
  by (simp add: authenticityStep_def urlAnalyzerPenalty_def Let_def)

lemma authenticityLoop_sum:
  "authenticityLoop s us acc = acc - (\<Sum>url\<leftarrow>us. urlAnalyzerPenalty s url)"
  by (induction us arbitrary: acc) (simp_all add: authenticityStep_penalty)

lemma analyzeAuthenticity_sum:
  "analyzeAuthenticity us s = max 0 (min 100 (100 - (\<Sum>url\<leftarrow>us. urlAnalyzerPenalty s url)))"
  by (simp add: analyzeAuthenticity_def authenticityLoop_sum)

lemma inlineUrlStep_penalty:
  "inlineUrlStep s acc url = acc - inlineUrlPenalty s url"
  by (simp add: inlineUrlStep_def inlineUrlPenalty_def Let_def)

lemma inlineUrlLoop_sum:
  "inlineUrlLoop s us acc = acc - (\<Sum>url\<leftarrow>us. inlineUrlPenalty s url)"
  by (induction us arbitrary: acc) (simp_all add: inlineUrlStep_penalty)

lemma analyzeUrlAuthenticity_sum:
  "analyzeUrlAuthenticity us s = max 0 (min 100 (100 - (\<Sum>url\<leftarrow>us. inlineUrlPenalty s url)))"
  by (simp add: analyzeUrlAuthenticity_def inlineUrlLoop_sum)

lemma urlAnalyzerPenalty_nonneg: "0 \<le> urlAnalyzerPenalty s url"
  by (simp add: urlAnalyzerPenalty_def)

lemma inlineUrlPenalty_nonneg: "0 \<le> inlineUrlPenalty s url"
  by (simp add: inlineUrlPenalty_def)

lemma subseq_sum_le:
  fixes g :: "'a \<Rightarrow> int"
  assumes "subseq xs ys" and "\<And>x. 0 \<le> g x"
  shows "(\<Sum>x\<leftarrow>xs. g x) \<le> (\<Sum>x\<leftarrow>ys. g x)"
  using assms(1)
proof (induction rule: list_emb.induct)
  case (list_emb_Nil ys)
  have "0 \<le> (\<Sum>x\<leftarrow>ys. g x)"
    by (rule sum_list_nonneg) (auto simp: assms(2))
  then show ?case by simp
next
  case (list_emb_Cons xs ys y)
  have "0 \<le> g y" by (rule assms(2))
  with list_emb_Cons.IH show ?case by simp
next
  case (list_emb_Cons2 x y xs ys)
  then show ?case by simp
qed

subsection \<open>On an ordinary URL the source tests what the specification asks\<close>



section \<open>Claims about the URL authenticity score\<close>




text \<open>
  Claim C10.  For both implementations of the URL authenticity score: the score is
  within \<open>[0,100]\<close>, it is 100 for the empty list of URLs, and it never increases when
  URLs are added to the list (the longer list \<open>vs\<close> has \<open>us\<close> as a subsequence).
\<close>

theorem C10_url_score_monotone:
  "0 \<le> analyzeAuthenticity us s \<and> analyzeAuthenticity us s \<le> 100 \<and>
   0 \<le> analyzeUrlAuthenticity us s \<and> analyzeUrlAuthenticity us s \<le> 100 \<and>
   analyzeAuthenticity [] s = 100 \<and> analyzeUrlAuthenticity [] s = 100 \<and>
   (subseq us vs \<longrightarrow>
      analyzeAuthenticity vs s \<le> analyzeAuthenticity us s \<and>
      analyzeUrlAuthenticity vs s \<le> analyzeUrlAuthenticity us s)"
proof -
  have bounds: "0 \<le> analyzeAuthenticity us s \<and> analyzeAuthenticity us s \<le> 100 \<and>
      0 \<le> analyzeUrlAuthenticity us s \<and> analyzeUrlAuthenticity us s \<le> 100"
    by (simp add: analyzeAuthenticity_def analyzeUrlAuthenticity_def)
  have empty: "analyzeAuthenticity [] s = 100 \<and> analyzeUrlAuthenticity [] s = 100"
    by (simp add: analyzeAuthenticity_def analyzeUrlAuthenticity_def)
  have mono: "analyzeAuthenticity vs s \<le> analyzeAuthenticity us s \<and>
      analyzeUrlAuthenticity vs s \<le> analyzeUrlAuthenticity us s" if sub: "subseq us vs"
  proof -
    have "(\<Sum>url\<leftarrow>us. urlAnalyzerPenalty s url) \<le> (\<Sum>url\<leftarrow>vs. urlAnalyzerPenalty s url)"
      by (rule subseq_sum_le [OF sub]) (rule urlAnalyzerPenalty_nonneg)
    moreover have "(\<Sum>url\<leftarrow>us. inlineUrlPenalty s url) \<le> (\<Sum>url\<leftarrow>vs. inlineUrlPenalty s url)"
      by (rule subseq_sum_le [OF sub]) (rule inlineUrlPenalty_nonneg)
    ultimately show ?thesis
      unfolding analyzeAuthenticity_sum analyzeUrlAuthenticity_sum
      by linarith
  qed
  from bounds empty mono show ?thesis by blast
qed

text \<open>Adding a shortener URL to a list of one URL lowers the score from 55 to 5.\<close>

theorem C10_url_score_monotone_witness:
  "subseq [''http://a.io/x''] [''http://a.io/x'', ''https://bit.ly/y''] \<and>
   analyzeAuthenticity [''http://a.io/x'', ''https://bit.ly/y''] ''it@bank.com'' = 5 \<and>
   analyzeAuthenticity [''http://a.io/x''] ''it@bank.com'' = 55 \<and>
   analyzeAuthenticity [''http://a.io/x'', ''https://bit.ly/y''] ''it@bank.com''
     \<le> analyzeAuthenticity [''http://a.io/x''] ''it@bank.com'' \<and>
   analyzeUrlAuthenticity [''http://a.io/x'', ''https://bit.ly/y''] ''it@bank.com''
     \<le> analyzeUrlAuthenticity [''http://a.io/x''] ''it@bank.com''"
proof -
  have sub: "subseq [''http://a.io/x''] [''http://a.io/x'', ''https://bit.ly/y'']"
    by simp
  have v1: "analyzeAuthenticity [''http://a.io/x'', ''https://bit.ly/y''] ''it@bank.com'' = 5"
    by code_simp
  have v2: "analyzeAuthenticity [''http://a.io/x''] ''it@bank.com'' = 55"
    by code_simp
  from C10_url_score_monotone [of "[''http://a.io/x'']" "''it@bank.com''"
      "[''http://a.io/x'', ''https://bit.ly/y'']"] sub v1 v2
  show ?thesis by blast
qed

section \<open>The two classifiers\<close>

lemma guarded_score_range: "0 \<le> fst (snd (guardedDecisionList f)) \<and> fst (snd (guardedDecisionList f)) \<le> 100"
  by (simp add: guardedDecisionList_def decisionRules_def)

lemma classify_score_range: "0 \<le> riskScore (classify e) \<and> riskScore (classify e) \<le> 100"
proof -
  have "riskScore (classify e) = fst (snd (verdictTriple (classify e)))"
    by (simp add: verdictTriple_def)
  then show ?thesis
    by (simp add: classify_triple tree_is_guarded_list guarded_score_range)
qed

lemma classifyEmail_score:
  "0 \<le> riskScore (classifyEmail e) \<and> riskScore (classifyEmail e) \<le> 100"
  by (simp add: classifyEmail_def Let_def)

lemma classifyEmail_level:
  "riskLevel (classifyEmail e) =
     (if 75 \<le> riskScore (classifyEmail e) then high
      else if 50 \<le> riskScore (classifyEmail e) then medium else low)"
  by (auto simp: classifyEmail_def Let_def)

lemma scenarioB_inline: "accumulatedRisk scenarioB_email = 70"
  by code_simp

text \<open>
  Claim C7 (amended).  For every email, the \<open>riskScore\<close> of the decision-tree classifier
  and the \<open>riskScore\<close> of the defense agent's inline scorer are between 0 and 100; the
  verdict of the tree is a function of the extracted features (the decision list), and
  the \<open>riskLevel\<close> of the inline scorer is a function of its score (high from 75,
  medium from 50, low below).  The two classifiers are distinct and need not agree.
\<close>

theorem C7_risk_scores:
  "0 \<le> riskScore (classify e) \<and> riskScore (classify e) \<le> 100 \<and>
   0 \<le> riskScore (classifyEmail e) \<and> riskScore (classifyEmail e) \<le> 100 \<and>
   verdictTriple (classify e) = guardedDecisionList (features (classify e)) \<and>
   riskLevel (classifyEmail e) =
     (if 75 \<le> riskScore (classifyEmail e) then high
      else if 50 \<le> riskScore (classifyEmail e) then medium else low)"
  using classify_score_range [of e] classifyEmail_score [of e] classifyEmail_level [of e]
  by (simp add: classify_triple tree_is_guarded_list classify_features)

text \<open>
  The claim that the two implementations never differ fails on the email of scenario B:
  the tree says high with score 80, the inline scorer medium with score 70.
\<close>

theorem C7_two_classifiers_counterexample:
  "riskLevel (classify scenarioB_email) = high \<and> riskScore (classify scenarioB_email) = 80 \<and>
   riskLevel (classifyEmail scenarioB_email) = medium \<and> riskScore (classifyEmail scenarioB_email) = 70"
proof -
  have "verdictTriple (classify scenarioB_email) = (high, 80, 0.85)"
    by (simp add: classify_triple tree_is_guarded_list guarded_rule2 scenarioB_fields)
  then have "riskLevel (classify scenarioB_email) = high \<and> riskScore (classify scenarioB_email) = 80"
    by (simp add: verdictTriple_def)
  moreover have "riskLevel (classifyEmail scenarioB_email) = medium \<and>
      riskScore (classifyEmail scenarioB_email) = 70"
    by (simp add: classifyEmail_def Let_def scenarioB_inline)
  ultimately show ?thesis by simp
qed

section \<open>The trainer: auxiliary facts\<close>

subsection \<open>One recorded outcome\<close>

lemma recordOutcome_attempts: "attempts (recordOutcome b c d) = attempts d + 1"
  by (simp add: recordOutcome_def Let_def)


lemma recordOutcome_spec: "specRateUpdate d (recordOutcome b c d) b c"
  by (simp add: specRateUpdate_def recordOutcome_def Let_def minAttemptsForLearning_def
      learningDecay_def observed_def)

lemma mean_in_range:
  fixes r x :: real
  assumes "0 \<le> r" "r \<le> 100" "0 \<le> x" "x \<le> 100"
  shows "0 \<le> (r * real n + x) / real (n + 1) \<and> (r * real n + x) / real (n + 1) \<le> 100"
proof -
  have pos: "0 < real (n + 1)" by simp
  have "r * real n \<le> 100 * real n"
    using assms(2) by (simp add: mult_right_mono)
  then have "r * real n + x \<le> 100 * real (n + 1)"
    using assms(4) by (simp add: algebra_simps)
  then have upper: "(r * real n + x) / real (n + 1) \<le> 100"
    using pos by (simp add: divide_le_eq)
  have "0 \<le> r * real n + x"
    using assms(1,3) by simp
  then have "0 \<le> (r * real n + x) / real (n + 1)"
    using pos by simp
  with upper show ?thesis by simp
qed

lemma decay_in_range:
  fixes r x :: real
  assumes "0 \<le> r" "r \<le> 100" "0 \<le> x" "x \<le> 100"
  shows "0 \<le> r * 0.95 + x * 0.05 \<and> r * 0.95 + x * 0.05 \<le> 100"
  using assms by simp

lemma observed_range: "0 \<le> observed b \<and> observed b \<le> 100"
  by (simp add: observed_def)

lemma recordOutcome_inRange:
  assumes "inRange d"
  shows "inRange (recordOutcome b c d)"
proof -
  let ?n = "recordOutcome b c d"
  have spec: "specRateUpdate d ?n b c" by (rule recordOutcome_spec)
  have a: "attempts ?n = attempts d + 1" by (rule recordOutcome_attempts)
  from assms have r: "0 \<le> bypassRate d" "bypassRate d \<le> 100" "0 \<le> clickRate d" "clickRate d \<le> 100"
    by (simp_all add: inRange_def)
  show ?thesis
  proof (cases "3 < attempts ?n")
    case True
    with spec have "bypassRate ?n = bypassRate d * 0.95 + observed b * 0.05"
      and "clickRate ?n = clickRate d * 0.95 + observed c * 0.05"
      by (simp_all add: specRateUpdate_def)
    then show ?thesis
      using decay_in_range [OF r(1,2), of "observed b"] decay_in_range [OF r(3,4), of "observed c"]
        observed_range [of b] observed_range [of c]
      by (simp add: inRange_def)
  next
    case False
    with spec a have "bypassRate ?n = (bypassRate d * real (attempts d) + observed b) / real (attempts d + 1)"
      and "clickRate ?n = (clickRate d * real (attempts d) + observed c) / real (attempts d + 1)"
      by (simp_all add: specRateUpdate_def)
    then show ?thesis
      using mean_in_range [OF r(1,2), of "observed b" "attempts d"]
        mean_in_range [OF r(3,4), of "observed c" "attempts d"]
        observed_range [of b] observed_range [of c]
      by (simp add: inRange_def)
  qed
qed

subsection \<open>The tables after one email\<close>

lemma updateStrategy_tables:
  "strategyScores (updateStrategy k b c t) =
     (strategyScores t)(k \<mapsto> (recordOutcome b c (strategyBefore t k))
        \<lparr> score := calculateSuccessScore (bypassRate (recordOutcome b c (strategyBefore t k)))
                     (clickRate (recordOutcome b c (strategyBefore t k))) \<rparr>)"
  "personaVulnerabilities (updateStrategy k b c t) = personaVulnerabilities t"
  "combinations (updateStrategy k b c t) = combinations t"
  by (simp_all add: updateStrategy_def strategyBefore_def Let_def)

lemma updatePersona_tables:
  "personaVulnerabilities (updatePersona k b c t) =
     (personaVulnerabilities t)(k \<mapsto> (recordOutcome b c (personaBefore t k))
        \<lparr> vulnerabilityScore := calculateSuccessScore (bypassRate (recordOutcome b c (personaBefore t k)))
                     (clickRate (recordOutcome b c (personaBefore t k))) \<rparr>)"
  "strategyScores (updatePersona k b c t) = strategyScores t"
  "combinations (updatePersona k b c t) = combinations t"
  by (simp_all add: updatePersona_def personaBefore_def Let_def)

lemma updateCombination_tables:
  "combinations (updateCombination k b c t) =
     (combinations t)(k \<mapsto> recordOutcome b c (combinationBefore t k))"
  "strategyScores (updateCombination k b c t) = strategyScores t"
  "personaVulnerabilities (updateCombination k b c t) = personaVulnerabilities t"
  by (simp_all add: updateCombination_def combinationBefore_def Let_def)

lemma before_updates:
  "strategyBefore (updatePersona k b c t) = strategyBefore t"
  "strategyBefore (updateCombination k b c t) = strategyBefore t"
  "personaBefore (updateStrategy k b c t) = personaBefore t"
  "personaBefore (updateCombination k b c t) = personaBefore t"
  "combinationBefore (updateStrategy k b c t) = combinationBefore t"
  "combinationBefore (updatePersona k b c t) = combinationBefore t"
  by (simp_all add: fun_eq_iff strategyBefore_def personaBefore_def combinationBefore_def
      updateStrategy_tables updatePersona_tables updateCombination_tables)

lemma learnEmail_strategyScores:
  "strategyScores (learnEmail st e t) =
     (strategyScores t)(getStrategyKey (emailStrategy e) \<mapsto>
        (recordOutcome (bypassed (lookupStatus st e)) (clicked (lookupStatus st e))
           (strategyBefore t (getStrategyKey (emailStrategy e))))
        \<lparr> score := calculateSuccessScore
           (bypassRate (recordOutcome (bypassed (lookupStatus st e)) (clicked (lookupStatus st e))
              (strategyBefore t (getStrategyKey (emailStrategy e)))))
           (clickRate (recordOutcome (bypassed (lookupStatus st e)) (clicked (lookupStatus st e))
              (strategyBefore t (getStrategyKey (emailStrategy e))))) \<rparr>)"
  by (simp add: learnEmail_def Let_def updateStrategy_tables updatePersona_tables
      updateCombination_tables)

lemma learnEmail_personaVulnerabilities:
  "personaVulnerabilities (learnEmail st e t) =
     (if truthy (targetPersonaId e)
      then (personaVulnerabilities t)(the (targetPersonaId e) \<mapsto>
        (recordOutcome (bypassed (lookupStatus st e)) (clicked (lookupStatus st e))
           (personaBefore t (the (targetPersonaId e))))
        \<lparr> vulnerabilityScore := calculateSuccessScore
           (bypassRate (recordOutcome (bypassed (lookupStatus st e)) (clicked (lookupStatus st e))
              (personaBefore t (the (targetPersonaId e)))))
           (clickRate (recordOutcome (bypassed (lookupStatus st e)) (clicked (lookupStatus st e))
              (personaBefore t (the (targetPersonaId e))))) \<rparr>)
      else personaVulnerabilities t)"
  by (simp add: learnEmail_def Let_def updateStrategy_tables updatePersona_tables
      updateCombination_tables before_updates)

lemma learnEmail_combinations:
  "combinations (learnEmail st e t) =
     (if truthy (targetPersonaId e)
      then (combinations t)(getCombinationKey (emailStrategy e) (the (targetPersonaId e)) \<mapsto>
        recordOutcome (bypassed (lookupStatus st e)) (clicked (lookupStatus st e))
           (combinationBefore t (getCombinationKey (emailStrategy e) (the (targetPersonaId e)))))
      else combinations t)"
  by (simp add: learnEmail_def Let_def updateStrategy_tables updatePersona_tables
      updateCombination_tables before_updates)

subsection \<open>Counters along a cycle and along a run\<close>

lemma learnEmail_attempts_strategy:
  "attemptsAt (strategyScores (learnEmail st e t)) k =
     attemptsAt (strategyScores t) k + (if getStrategyKey (emailStrategy e) = k then 1 else 0)"
  by (simp add: learnEmail_strategyScores attemptsAt_def recordOutcome_attempts strategyBefore_def
      split: option.splits)

lemma learnEmail_attempts_persona:
  "attemptsAt (personaVulnerabilities (learnEmail st e t)) k =
     attemptsAt (personaVulnerabilities t) k +
       (if truthy (targetPersonaId e) \<and> targetPersonaId e = Some k then 1 else 0)"
  by (cases "targetPersonaId e")
     (auto simp: learnEmail_personaVulnerabilities attemptsAt_def recordOutcome_attempts
        personaBefore_def split: option.splits)

lemma learnEmail_attempts_combination:
  "attemptsAt (combinations (learnEmail st e t)) k =
     attemptsAt (combinations t) k +
       (if truthy (targetPersonaId e) \<and>
           getCombinationKey (emailStrategy e) (the (targetPersonaId e)) = k then 1 else 0)"
  by (auto simp: learnEmail_combinations attemptsAt_def recordOutcome_attempts
        combinationBefore_def split: option.splits)

lemma fold_learnEmail_attempts:
  "attemptsAt (strategyScores (fold (learnEmail st) es t)) k =
     attemptsAt (strategyScores t) k + strategyCalls k es"
  "attemptsAt (personaVulnerabilities (fold (learnEmail st) es t)) k =
     attemptsAt (personaVulnerabilities t) k + personaCalls k es"
  "attemptsAt (combinations (fold (learnEmail st) es t)) k =
     attemptsAt (combinations t) k + combinationCalls k es"
proof (induction es arbitrary: t)
  case Nil
  {
    case 1 show ?case by (simp add: strategyCalls_def)
  next
    case 2 show ?case by (simp add: personaCalls_def)
  next
    case 3 show ?case by (simp add: combinationCalls_def)
  }
next
  case (Cons e es)
  {
    case 1 show ?case
      by (simp add: Cons.IH(1) learnEmail_attempts_strategy strategyCalls_def)
  next
    case 2 show ?case
      by (cases "targetPersonaId e")
         (auto simp: Cons.IH(2) learnEmail_attempts_persona personaCalls_def)
  next
    case 3 show ?case
      by (simp add: Cons.IH(3) learnEmail_attempts_combination combinationCalls_def)
  }
qed

lemma learnFromCycle_attempts:
  "attemptsAt (strategyScores (learnFromCycle inbox es t)) k =
     attemptsAt (strategyScores t) k + strategyCalls k es"
  "attemptsAt (personaVulnerabilities (learnFromCycle inbox es t)) k =
     attemptsAt (personaVulnerabilities t) k + personaCalls k es"
  "attemptsAt (combinations (learnFromCycle inbox es t)) k =
     attemptsAt (combinations t) k + combinationCalls k es"
  by (simp_all add: learnFromCycle_def Let_def fold_learnEmail_attempts strategyCalls_def
      personaCalls_def combinationCalls_def)

lemma calls_append:
  "strategyCalls k (xs @ ys) = strategyCalls k xs + strategyCalls k ys"
  "personaCalls k (xs @ ys) = personaCalls k xs + personaCalls k ys"
  "combinationCalls k (xs @ ys) = combinationCalls k xs + combinationCalls k ys"
  by (simp_all add: strategyCalls_def personaCalls_def combinationCalls_def)

lemma learnCycles_attempts:
  "attemptsAt (strategyScores (learnCycles cs t)) k =
     attemptsAt (strategyScores t) k + strategyCalls k (concat (map snd cs))"
  "attemptsAt (personaVulnerabilities (learnCycles cs t)) k =
     attemptsAt (personaVulnerabilities t) k + personaCalls k (concat (map snd cs))"
  "attemptsAt (combinations (learnCycles cs t)) k =
     attemptsAt (combinations t) k + combinationCalls k (concat (map snd cs))"
proof (induction cs arbitrary: t)
  case Nil
  {
    case 1 show ?case by (simp add: strategyCalls_def)
  next
    case 2 show ?case by (simp add: personaCalls_def)
  next
    case 3 show ?case by (simp add: combinationCalls_def)
  }
next
  case (Cons c cs)
  {
    case 1 show ?case by (simp add: Cons.IH(1) learnFromCycle_attempts calls_append)
  next
    case 2 show ?case by (simp add: Cons.IH(2) learnFromCycle_attempts calls_append)
  next
    case 3 show ?case by (simp add: Cons.IH(3) learnFromCycle_attempts calls_append)
  }
qed

subsection \<open>Rates stay in range\<close>

lemma inRange_more [simp]:
  "inRange (d \<lparr> score := x \<rparr>) = inRange d"
  "inRange (p \<lparr> vulnerabilityScore := y \<rparr>) = inRange p"
  by (simp_all add: inRange_def)

lemma before_inRange:
  assumes "tablesInRange t"
  shows "inRange (strategyBefore t k)" "inRange (personaBefore t k)" "inRange (combinationBefore t k)"
  using assms
  by (auto simp: tablesInRange_def strategyBefore_def personaBefore_def combinationBefore_def
      inRange_def split: option.splits)

lemma learnEmail_inRange:
  assumes "tablesInRange t"
  shows "tablesInRange (learnEmail st e t)"
  unfolding tablesInRange_def
proof (intro conjI allI impI)
  fix k d assume "strategyScores (learnEmail st e t) k = Some d"
  then show "inRange d"
    using assms
    by (auto simp: learnEmail_strategyScores tablesInRange_def recordOutcome_inRange
        before_inRange [OF assms] split: if_splits)
next
  fix k d assume "personaVulnerabilities (learnEmail st e t) k = Some d"
  then show "inRange d"
    using assms
    by (auto simp: learnEmail_personaVulnerabilities tablesInRange_def recordOutcome_inRange
        before_inRange [OF assms] split: if_splits)
next
  fix k d assume "combinations (learnEmail st e t) k = Some d"
  then show "inRange d"
    using assms
    by (auto simp: learnEmail_combinations tablesInRange_def recordOutcome_inRange
        before_inRange [OF assms] split: if_splits)
qed

lemma fold_learnEmail_inRange:
  "tablesInRange t \<Longrightarrow> tablesInRange (fold (learnEmail st) es t)"
  by (induction es arbitrary: t) (simp_all add: learnEmail_inRange)

lemma learnFromCycle_inRange:
  "tablesInRange t \<Longrightarrow> tablesInRange (learnFromCycle inbox es t)"
  by (simp add: learnFromCycle_def Let_def fold_learnEmail_inRange)

lemma learnCycles_inRange:
  "tablesInRange t \<Longrightarrow> tablesInRange (learnCycles cs t)"
  by (induction cs arbitrary: t) (simp_all add: learnFromCycle_inRange)

subsection \<open>The default-seeded trainer\<close>

lemma default_ranges:
  "0 \<le> defaultBypass s \<and> defaultBypass s \<le> 100"
  "0 \<le> defaultVulnerability p \<and> defaultVulnerability p \<le> 100"
  by (simp_all add: defaultBypass_def defaultVulnerability_def)

lemma initStrategy_fresh: "freshTables t \<Longrightarrow> freshTables (initStrategy s t)"
  using default_ranges(1) [of s]
  by (auto simp: freshTables_def initStrategy_def Let_def inRange_def)

lemma initPersona_fresh: "freshTables t \<Longrightarrow> freshTables (initPersona p t)"
  using default_ranges(2) [of p]
  by (auto simp: freshTables_def initPersona_def Let_def inRange_def)

lemma fold_initStrategy_fresh: "freshTables t \<Longrightarrow> freshTables (fold initStrategy ss t)"
  by (induction ss arbitrary: t) (simp_all add: initStrategy_fresh)

lemma fold_initPersona_fresh: "freshTables t \<Longrightarrow> freshTables (fold initPersona ps t)"
  by (induction ps arbitrary: t) (simp_all add: initPersona_fresh)

lemma newTrainer_fresh: "freshTables (newTrainer ss ps None)"
proof -
  have "freshTables \<lparr> allStrategies = ss, allPersonas = ps, strategyScores = Map.empty,
      personaVulnerabilities = Map.empty, combinations = Map.empty \<rparr>"
    by (simp add: freshTables_def)
  then show ?thesis
    by (simp add: newTrainer_def loadLearnedPatterns_def initializeDefaultScores_def
        fold_initStrategy_fresh fold_initPersona_fresh)
qed

lemma fresh_attempts:
  assumes "freshTables t"
  shows "attemptsAt (strategyScores t) k = 0" "attemptsAt (personaVulnerabilities t) k = 0"
    "attemptsAt (combinations t) k = 0"
  using assms by (auto simp: freshTables_def attemptsAt_def split: option.splits)

lemma fresh_inRange: "freshTables t \<Longrightarrow> tablesInRange t"
  by (auto simp: freshTables_def tablesInRange_def)

lemma attemptsAt_Some: "m k = Some d \<Longrightarrow> attemptsAt m k = attempts d"
  by (simp add: attemptsAt_def)

lemma attemptsAt_pos: "0 < attemptsAt m k \<Longrightarrow> m k \<noteq> None"
  by (cases "m k") (simp_all add: attemptsAt_def)

subsection \<open>The score of a recorded entry\<close>

lemma calculateSuccessScore_linear: "calculateSuccessScore b c = 0.7 * b + 0.3 * c"
  by (simp add: calculateSuccessScore_def Let_def field_simps)

lemma learnEmail_scores_key:
  "strategyScored (learnEmail st e t) (getStrategyKey (emailStrategy e))"
  "truthy (targetPersonaId e) \<Longrightarrow> personaScored (learnEmail st e t) (the (targetPersonaId e))"
  by (simp_all add: strategyScored_def personaScored_def learnEmail_strategyScores
      learnEmail_personaVulnerabilities calculateSuccessScore_linear)

lemma learnEmail_keeps_scored:
  "strategyScored t k \<Longrightarrow> strategyScored (learnEmail st e t) k"
  "personaScored t k \<Longrightarrow> personaScored (learnEmail st e t) k"
  by (auto simp: strategyScored_def personaScored_def learnEmail_strategyScores
      learnEmail_personaVulnerabilities calculateSuccessScore_linear)

lemma fold_keeps_scored:
  "strategyScored t k \<Longrightarrow> strategyScored (fold (learnEmail st) es t) k"
  "personaScored t k \<Longrightarrow> personaScored (fold (learnEmail st) es t) k"
  by (induction es arbitrary: t) (simp_all add: learnEmail_keeps_scored)

lemma fold_scores_member:
  assumes "e \<in> set es"
  shows "strategyScored (fold (learnEmail st) es t) (getStrategyKey (emailStrategy e))"
    and "truthy (targetPersonaId e) \<Longrightarrow>
           personaScored (fold (learnEmail st) es t) (the (targetPersonaId e))"
  using assms
proof (induction es arbitrary: t)
  case Nil
  {
    case 1 then show ?case by simp
  next
    case 2 then show ?case by simp
  }
next
  case (Cons x xs)
  {
    case 1
    show ?case
    proof (cases "e = x")
      case True
      then show ?thesis by (simp add: fold_keeps_scored(1) learnEmail_scores_key(1))
    next
      case False
      with 1 have "e \<in> set xs" by simp
      then show ?thesis by (simp add: Cons.IH(1))
    qed
  next
    case 2
    show ?case
    proof (cases "e = x")
      case True
      with 2 show ?thesis by (simp add: fold_keeps_scored(2) learnEmail_scores_key(2))
    next
      case False
      with 2 have "e \<in> set xs" by simp
      with 2 show ?thesis by (simp add: Cons.IH(2))
    qed
  }
qed

subsection \<open>Emails that are not in the inbox\<close>






subsection \<open>The running mean of the first attempts\<close>

lemma recordAll_snoc: "recordAll (os @ [out]) d = recordOutcome (fst out) (snd out) (recordAll os d)"
  by (simp add: recordAll_def)

lemma recordAll_attempts: "attempts (recordAll os d) = attempts d + length os"
proof (induction os rule: rev_induct)
  case Nil
  show ?case by (simp add: recordAll_def)
next
  case (snoc out os)
  then show ?case by (simp add: recordAll_snoc recordOutcome_attempts)
qed

lemma recordAll_mean:
  assumes "attempts d = 0" and "length os \<le> 3"
  shows "bypassRate (recordAll os d) * real (length os) = (\<Sum>out\<leftarrow>os. observed (fst out)) \<and>
         clickRate (recordAll os d) * real (length os) = (\<Sum>out\<leftarrow>os. observed (snd out))"
  using assms(2)
proof (induction os rule: rev_induct)
  case Nil
  show ?case by simp
next
  case (snoc out os)
  let ?p = "recordAll os d"
  let ?n = "recordOutcome (fst out) (snd out) ?p"
  have len: "attempts ?p = length os"
    by (simp add: recordAll_attempts assms(1))
  have small: "\<not> 3 < attempts ?n"
    using snoc.prems by (simp add: recordOutcome_attempts len)
  have spec: "specRateUpdate ?p ?n (fst out) (snd out)"
    by (rule recordOutcome_spec)
  from spec small have
    b: "bypassRate ?n = (bypassRate ?p * real (length os) + observed (fst out)) / real (length os + 1)" and
    c: "clickRate ?n = (clickRate ?p * real (length os) + observed (snd out)) / real (length os + 1)"
    by (simp_all add: specRateUpdate_def len)
  from snoc have ih: "bypassRate ?p * real (length os) = (\<Sum>out\<leftarrow>os. observed (fst out))"
      "clickRate ?p * real (length os) = (\<Sum>out\<leftarrow>os. observed (snd out))"
    by simp_all
  show ?case
    by (simp add: recordAll_snoc b c ih)
qed

subsection \<open>The example cycles\<close>

lemma firstCycle_entries:
  "strategyScores (learnFromCycle deliveredInbox [firstEmail] seededTrainer) ''m1|expert|high'' =
     Some \<lparr> attempts = 1, successes = 1, bypassRate = 100, clickRate = 0, score = 70 \<rparr>"
  "personaVulnerabilities (learnFromCycle deliveredInbox [firstEmail] seededTrainer) ''1'' =
     Some \<lparr> attempts = 1, successes = 1, bypassRate = 100, clickRate = 0, vulnerabilityScore = 70 \<rparr>"
  "combinations (learnFromCycle deliveredInbox [firstEmail] seededTrainer) ''m1|expert|high|1'' =
     Some \<lparr> attempts = 1, successes = 1, bypassRate = 100, clickRate = 0 \<rparr>"
  by code_simp+

lemma firstEmail_keys:
  "getStrategyKey (emailStrategy firstEmail) = ''m1|expert|high''"
  "targetPersonaId firstEmail = Some ''1''"
  "getCombinationKey (emailStrategy firstEmail) ''1'' = ''m1|expert|high|1''"
  "emailId firstEmail = ''email-1''"
  by (simp_all add: firstEmail_def emailStrategy_def getStrategyKey_def getCombinationKey_def)

lemma secondEmail_keys:
  "getStrategyKey (emailStrategy secondEmail) = ''m1|expert|high''"
  "targetPersonaId secondEmail = Some ''2''"
  "getCombinationKey (emailStrategy secondEmail) ''2'' = ''m1|expert|high|2''"
  "emailId secondEmail = ''email-2''"
  by (simp_all add: secondEmail_def emailStrategy_def getStrategyKey_def getCombinationKey_def)

lemma seededRun_once:
  "seededRun [expertStrategy] [personaOne, personaTwo] [(deliveredInbox, [firstEmail])] =
     learnFromCycle deliveredInbox [firstEmail] seededTrainer"
  by (simp add: seededRun_def seededTrainer_def)

lemma absentCycle_entries:
  "strategyScores (learnFromCycle deliveredInbox [secondEmail] seededTrainer) ''m1|expert|high'' =
     Some \<lparr> attempts = 1, successes = 0, bypassRate = 0, clickRate = 0, score = 0 \<rparr>"
  "personaVulnerabilities (learnFromCycle deliveredInbox [secondEmail] seededTrainer) ''2'' =
     Some \<lparr> attempts = 1, successes = 0, bypassRate = 0, clickRate = 0, vulnerabilityScore = 0 \<rparr>"
  by code_simp+


section \<open>Claims about the learning step\<close>

text \<open>
  Claim C4 (amended).  After a learning update, the composite score stored for the
  strategy of every recorded email is \<open>0.7 * bypassRate + 0.3 * clickRate\<close>, and so is
  the \<open>vulnerabilityScore\<close> stored for its persona: \<open>learnFromCycle\<close> computes both with
  \<open>calculateSuccessScore\<close>, whose weights are 0.7 and 0.3.
\<close>

theorem C4_persisted_score:
  "e \<in> set es \<longrightarrow>
     (\<exists>d. strategyScores (learnFromCycle inbox es t) (getStrategyKey (emailStrategy e)) = Some d \<and>
          score d = 0.7 * bypassRate d + 0.3 * clickRate d) \<and>
     (truthy (targetPersonaId e) \<longrightarrow>
        (\<exists>p. personaVulnerabilities (learnFromCycle inbox es t) (the (targetPersonaId e)) = Some p \<and>
             vulnerabilityScore p = 0.7 * bypassRate p + 0.3 * clickRate p))"
proof (intro impI conjI)
  assume mem: "e \<in> set es"
  then have ne: "es \<noteq> []" by auto
  from fold_scores_member(1) [OF mem]
  show "\<exists>d. strategyScores (learnFromCycle inbox es t) (getStrategyKey (emailStrategy e)) = Some d \<and>
          score d = 0.7 * bypassRate d + 0.3 * clickRate d"
    using ne by (simp add: learnFromCycle_def Let_def strategyScored_def)
  assume "truthy (targetPersonaId e)"
  from fold_scores_member(2) [OF mem this]
  show "\<exists>p. personaVulnerabilities (learnFromCycle inbox es t) (the (targetPersonaId e)) = Some p \<and>
          vulnerabilityScore p = 0.7 * bypassRate p + 0.3 * clickRate p"
    using ne by (simp add: learnFromCycle_def Let_def personaScored_def)
qed

text \<open>One delivered, unclicked email from the seeded state: both scores are 70.\<close>

theorem C4_persisted_score_witness:
  "firstEmail \<in> set [firstEmail] \<and> truthy (targetPersonaId firstEmail) \<and>
   map_option score (strategyScores (learnFromCycle deliveredInbox [firstEmail] seededTrainer)
      ''m1|expert|high'') = Some (0.7 * 100 + 0.3 * 0) \<and>
   map_option vulnerabilityScore (personaVulnerabilities
      (learnFromCycle deliveredInbox [firstEmail] seededTrainer) ''1'') = Some (0.7 * 100 + 0.3 * 0)"
  using C4_persisted_score [of firstEmail "[firstEmail]" deliveredInbox seededTrainer]
  by (simp add: firstEmail_keys firstCycle_entries)

text \<open>
  The weighting 0.6/0.4 of the claim fails after the first update: the stored score is
  70, where \<open>0.6 * bypassRate + 0.4 * clickRate\<close> is 60.
\<close>

theorem C4_weights_counterexample:
  "map_option score (strategyScores (learnFromCycle deliveredInbox [firstEmail] seededTrainer)
      ''m1|expert|high'') = Some 70 \<and>
   map_option (\<lambda>d. 0.6 * bypassRate d + 0.4 * clickRate d)
     (strategyScores (learnFromCycle deliveredInbox [firstEmail] seededTrainer)
      ''m1|expert|high'') = Some 60"
  by (simp add: firstCycle_entries)

text \<open>
  Claim C5.  For every ledger key and every recorded outcome: the counter goes up by
  one; if it then exceeds \<open>minAttempts = 3\<close> the new rates are \<open>old * 0.95 + observed * 0.05\<close>,
  otherwise they are the running mean over the attempts so far (\<open>specRateUpdate\<close>).  This
  holds for the strategy entry and, when the email has a target persona, for the persona
  entry and the combination entry.  From an entry without attempts, the first three rates
  are the mean of the observed outcomes.
\<close>

theorem C5_rate_update:
  "(\<exists>new. strategyScores (learnEmail st e t) (getStrategyKey (emailStrategy e)) = Some new \<and>
      specRateUpdate (strategyBefore t (getStrategyKey (emailStrategy e))) new
        (bypassed (lookupStatus st e)) (clicked (lookupStatus st e))) \<and>
   (truthy (targetPersonaId e) \<longrightarrow>
      (\<exists>new. personaVulnerabilities (learnEmail st e t) (the (targetPersonaId e)) = Some new \<and>
         specRateUpdate (personaBefore t (the (targetPersonaId e))) new
           (bypassed (lookupStatus st e)) (clicked (lookupStatus st e))) \<and>
      (\<exists>new. combinations (learnEmail st e t)
            (getCombinationKey (emailStrategy e) (the (targetPersonaId e))) = Some new \<and>
         specRateUpdate
           (combinationBefore t (getCombinationKey (emailStrategy e) (the (targetPersonaId e)))) new
           (bypassed (lookupStatus st e)) (clicked (lookupStatus st e)))) \<and>
   (attempts d = 0 \<and> os \<noteq> [] \<and> length os \<le> 3 \<longrightarrow>
      bypassRate (recordAll os d) = (\<Sum>out\<leftarrow>os. observed (fst out)) / real (length os) \<and>
      clickRate (recordAll os d) = (\<Sum>out\<leftarrow>os. observed (snd out)) / real (length os))"
proof (intro conjI impI)
  show "\<exists>new. strategyScores (learnEmail st e t) (getStrategyKey (emailStrategy e)) = Some new \<and>
      specRateUpdate (strategyBefore t (getStrategyKey (emailStrategy e))) new
        (bypassed (lookupStatus st e)) (clicked (lookupStatus st e))"
    using recordOutcome_spec [of "strategyBefore t (getStrategyKey (emailStrategy e))"
        "bypassed (lookupStatus st e)" "clicked (lookupStatus st e)"]
    by (simp add: learnEmail_strategyScores specRateUpdate_def)
next
  assume "truthy (targetPersonaId e)"
  then show "\<exists>new. personaVulnerabilities (learnEmail st e t) (the (targetPersonaId e)) = Some new \<and>
         specRateUpdate (personaBefore t (the (targetPersonaId e))) new
           (bypassed (lookupStatus st e)) (clicked (lookupStatus st e))"
    using recordOutcome_spec [of "personaBefore t (the (targetPersonaId e))"
        "bypassed (lookupStatus st e)" "clicked (lookupStatus st e)"]
    by (simp add: learnEmail_personaVulnerabilities specRateUpdate_def)
next
  assume "truthy (targetPersonaId e)"
  then show "\<exists>new. combinations (learnEmail st e t)
            (getCombinationKey (emailStrategy e) (the (targetPersonaId e))) = Some new \<and>
         specRateUpdate
           (combinationBefore t (getCombinationKey (emailStrategy e) (the (targetPersonaId e)))) new
           (bypassed (lookupStatus st e)) (clicked (lookupStatus st e))"
    using recordOutcome_spec [of
        "combinationBefore t (getCombinationKey (emailStrategy e) (the (targetPersonaId e)))"
        "bypassed (lookupStatus st e)" "clicked (lookupStatus st e)"]
    by (simp add: learnEmail_combinations)
next
  assume a: "attempts d = 0 \<and> os \<noteq> [] \<and> length os \<le> 3"
  then have pos: "real (length os) \<noteq> 0" by simp
  from a recordAll_mean [of d os]
  have m: "bypassRate (recordAll os d) * real (length os) = (\<Sum>out\<leftarrow>os. observed (fst out))"
    "clickRate (recordAll os d) * real (length os) = (\<Sum>out\<leftarrow>os. observed (snd out))"
    by simp_all
  from m(1) pos show "bypassRate (recordAll os d) = (\<Sum>out\<leftarrow>os. observed (fst out)) / real (length os)"
    by (simp add: field_simps)
  from m(2) pos show "clickRate (recordAll os d) = (\<Sum>out\<leftarrow>os. observed (snd out)) / real (length os)"
    by (simp add: field_simps)
qed

text \<open>
  A persona with three attempts and \<open>bypassRate = 200/3\<close> records a blocked email: the
  fourth attempt decays the rate.  Two outcomes from a fresh entry give their mean.
\<close>

theorem C5_rate_update_witness:
  "truthy (targetPersonaId secondEmail) \<and>
   attempts (personaBefore tiedTrainer ''2'') = 3 \<and>
   bypassRate (personaBefore tiedTrainer ''2'') = 200 / 3 \<and>
   map_option attempts (personaVulnerabilities
      (learnEmail (getEmailStatuses None [''email-2'']) secondEmail tiedTrainer) ''2'') = Some 4 \<and>
   map_option bypassRate (personaVulnerabilities
      (learnEmail (getEmailStatuses None [''email-2'']) secondEmail tiedTrainer) ''2'')
     = Some (200 / 3 * 0.95 + 0 * 0.05) \<and>
   attempts \<lparr> attempts = 0, successes = 0, bypassRate = 20, clickRate = 0 \<rparr> = 0 \<and>
   bypassRate (recordAll [(True, False), (False, True)]
      \<lparr> attempts = 0, successes = 0, bypassRate = 20, clickRate = 0 \<rparr>) = 50"
proof -
  have old: "attempts (personaBefore tiedTrainer ''2'') = 3"
    "bypassRate (personaBefore tiedTrainer ''2'') = 200 / 3"
    by (simp_all add: personaBefore_def tiedTrainer_def)
  have out: "bypassed (lookupStatus (getEmailStatuses None [''email-2'']) secondEmail) = False"
    by (simp add: lookupStatus_def getEmailStatuses_def emptyObject_def)
  have tr: "truthy (targetPersonaId secondEmail)"
    by (simp add: secondEmail_keys)
  note inst = C5_rate_update [of "getEmailStatuses None [''email-2'']" secondEmail tiedTrainer
      "\<lparr> attempts = 0, successes = 0, bypassRate = 20, clickRate = 0 \<rparr>"
      "[(True, False), (False, True)]"]
  from inst tr obtain new where
    new: "personaVulnerabilities (learnEmail (getEmailStatuses None [''email-2'']) secondEmail tiedTrainer)
        ''2'' = Some new"
    and spec: "specRateUpdate (personaBefore tiedTrainer ''2'') new False
        (clicked (lookupStatus (getEmailStatuses None [''email-2'']) secondEmail))"
    by (auto simp: secondEmail_keys out)
  from spec old have "attempts new = 4" "bypassRate new = 200 / 3 * 0.95 + 0 * 0.05"
    by (simp_all add: specRateUpdate_def observed_def)
  moreover from inst have "bypassRate (recordAll [(True, False), (False, True)]
      \<lparr> attempts = 0, successes = 0, bypassRate = 20, clickRate = 0 \<rparr>) = 50"
    by (simp add: observed_def)
  ultimately show ?thesis using new old tr by simp
qed

text \<open>
  Claim C6.  From the default-seeded state, after any run of learning cycles, the
  attempts counter of every key equals the number of emails recorded for that key, in
  each of the three tables, and \<open>bypassRate\<close> and \<open>clickRate\<close> of every entry are within
  \<open>[0,100]\<close>; a key with at least one recorded email has an entry.  The run is
  arbitrary, so this holds after every update.
\<close>

theorem C6_attempts_and_ranges:
  "(\<forall>d. strategyScores (seededRun strategies personas cycles) ks = Some d \<longrightarrow>
        attempts d = strategyCalls ks (recorded cycles) \<and> inRange d) \<and>
   (\<forall>d. personaVulnerabilities (seededRun strategies personas cycles) kp = Some d \<longrightarrow>
        attempts d = personaCalls kp (recorded cycles) \<and> inRange d) \<and>
   (\<forall>d. combinations (seededRun strategies personas cycles) kc = Some d \<longrightarrow>
        attempts d = combinationCalls kc (recorded cycles) \<and> inRange d) \<and>
   (0 < strategyCalls ks (recorded cycles) \<longrightarrow>
        strategyScores (seededRun strategies personas cycles) ks \<noteq> None) \<and>
   (0 < personaCalls kp (recorded cycles) \<longrightarrow>
        personaVulnerabilities (seededRun strategies personas cycles) kp \<noteq> None) \<and>
   (0 < combinationCalls kc (recorded cycles) \<longrightarrow>
        combinations (seededRun strategies personas cycles) kc \<noteq> None)"
proof -
  let ?init = "newTrainer strategies personas None"
  let ?t = "seededRun strategies personas cycles"
  have fresh: "freshTables ?init" by (rule newTrainer_fresh)
  have ranges: "tablesInRange ?t"
    by (simp add: seededRun_def learnCycles_inRange fresh_inRange [OF fresh])
  have a1: "attemptsAt (strategyScores ?t) ks = strategyCalls ks (recorded cycles)"
    by (simp add: seededRun_def recorded_def learnCycles_attempts fresh_attempts [OF fresh])
  have a2: "attemptsAt (personaVulnerabilities ?t) kp = personaCalls kp (recorded cycles)"
    by (simp add: seededRun_def recorded_def learnCycles_attempts fresh_attempts [OF fresh])
  have a3: "attemptsAt (combinations ?t) kc = combinationCalls kc (recorded cycles)"
    by (simp add: seededRun_def recorded_def learnCycles_attempts fresh_attempts [OF fresh])
  have s1: "\<forall>d. strategyScores ?t ks = Some d \<longrightarrow>
      attempts d = strategyCalls ks (recorded cycles) \<and> inRange d"
    using ranges a1 by (auto simp: tablesInRange_def dest: attemptsAt_Some)
  have s2: "\<forall>d. personaVulnerabilities ?t kp = Some d \<longrightarrow>
      attempts d = personaCalls kp (recorded cycles) \<and> inRange d"
    using ranges a2 by (auto simp: tablesInRange_def dest: attemptsAt_Some)
  have s3: "\<forall>d. combinations ?t kc = Some d \<longrightarrow>
      attempts d = combinationCalls kc (recorded cycles) \<and> inRange d"
    using ranges a3 by (auto simp: tablesInRange_def dest: attemptsAt_Some)
  have e1: "0 < strategyCalls ks (recorded cycles) \<longrightarrow> strategyScores ?t ks \<noteq> None"
    using a1 attemptsAt_pos [of "strategyScores ?t" ks] by simp
  have e2: "0 < personaCalls kp (recorded cycles) \<longrightarrow> personaVulnerabilities ?t kp \<noteq> None"
    using a2 attemptsAt_pos [of "personaVulnerabilities ?t" kp] by simp
  have e3: "0 < combinationCalls kc (recorded cycles) \<longrightarrow> combinations ?t kc \<noteq> None"
    using a3 attemptsAt_pos [of "combinations ?t" kc] by simp
  from s1 s2 s3 e1 e2 e3 show ?thesis by blast
qed

text \<open>One cycle with one email: each of its three keys has one attempt, rates in range.\<close>

theorem C6_attempts_and_ranges_witness:
  "strategyScores (seededRun [expertStrategy] [personaOne, personaTwo] [(deliveredInbox, [firstEmail])])
      ''m1|expert|high'' =
     Some \<lparr> attempts = 1, successes = 1, bypassRate = 100, clickRate = 0, score = 70 \<rparr> \<and>
   personaVulnerabilities (seededRun [expertStrategy] [personaOne, personaTwo]
      [(deliveredInbox, [firstEmail])]) ''1'' =
     Some \<lparr> attempts = 1, successes = 1, bypassRate = 100, clickRate = 0, vulnerabilityScore = 70 \<rparr> \<and>
   combinations (seededRun [expertStrategy] [personaOne, personaTwo]
      [(deliveredInbox, [firstEmail])]) ''m1|expert|high|1'' =
     Some \<lparr> attempts = 1, successes = 1, bypassRate = 100, clickRate = 0 \<rparr> \<and>
   strategyCalls ''m1|expert|high'' (recorded [(deliveredInbox, [firstEmail])]) = 1 \<and>
   personaCalls ''1'' (recorded [(deliveredInbox, [firstEmail])]) = 1 \<and>
   combinationCalls ''m1|expert|high|1'' (recorded [(deliveredInbox, [firstEmail])]) = 1 \<and>
   inRange \<lparr> attempts = 1, successes = 1, bypassRate = 100, clickRate = 0, score = 70 \<rparr> \<and>
   inRange \<lparr> attempts = 1, successes = 1, bypassRate = 100, clickRate = 0, vulnerabilityScore = 70 \<rparr> \<and>
   inRange \<lparr> attempts = 1, successes = 1, bypassRate = 100, clickRate = 0 \<rparr>"
proof -
  let ?t = "seededRun [expertStrategy] [personaOne, personaTwo] [(deliveredInbox, [firstEmail])]"
  have entries:
    "strategyScores ?t ''m1|expert|high'' =
       Some \<lparr> attempts = 1, successes = 1, bypassRate = 100, clickRate = 0, score = 70 \<rparr>"
    "personaVulnerabilities ?t ''1'' =
       Some \<lparr> attempts = 1, successes = 1, bypassRate = 100, clickRate = 0, vulnerabilityScore = 70 \<rparr>"
    "combinations ?t ''m1|expert|high|1'' =
       Some \<lparr> attempts = 1, successes = 1, bypassRate = 100, clickRate = 0 \<rparr>"
    by (simp_all add: seededRun_once firstCycle_entries)
  from C6_attempts_and_ranges [of "[expertStrategy]" "[personaOne, personaTwo]"
      "[(deliveredInbox, [firstEmail])]" "''m1|expert|high''" "''1''" "''m1|expert|high|1''"] entries
  have "strategyCalls ''m1|expert|high'' (recorded [(deliveredInbox, [firstEmail])]) = 1 \<and>
      personaCalls ''1'' (recorded [(deliveredInbox, [firstEmail])]) = 1 \<and>
      combinationCalls ''m1|expert|high|1'' (recorded [(deliveredInbox, [firstEmail])]) = 1 \<and>
      inRange \<lparr> attempts = 1, successes = 1, bypassRate = 100, clickRate = 0, score = 70 \<rparr> \<and>
      inRange \<lparr> attempts = 1, successes = 1, bypassRate = 100, clickRate = 0, vulnerabilityScore = 70 \<rparr> \<and>
      inRange \<lparr> attempts = 1, successes = 1, bypassRate = 100, clickRate = 0 \<rparr>"
    by auto
  with entries show ?thesis by simp
qed




section \<open>Claims about the selection of targets\<close>

subsection \<open>The selection of targets\<close>

lemma scorePersona_persona [simp]: "persona (scorePersona t p) = p"
  by (simp add: scorePersona_def Let_def)

lemma scorePersona_zero_attempts:
  "itemAttempts (scorePersona t p) = 0 \<Longrightarrow> finalScore (scorePersona t p) = 60"
  by (simp add: scorePersona_def Let_def minAttemptsForLearning_def)

lemma scorePersona_enough_attempts:
  "3 \<le> itemAttempts (scorePersona t q) \<Longrightarrow>
     finalScore (scorePersona t q) =
       itemVulnerability (scorePersona t q) +
       (if itemAttempts (scorePersona t q) < 6
        then real (6 - itemAttempts (scorePersona t q)) * 10 else 0)"
  by (simp add: scorePersona_def Let_def minAttemptsForLearning_def min_def)

lemma select_ranked: "selectBestTargets t n = map persona (take n (ranked t))"
  by (simp add: selectBestTargets_def ranked_def Let_def)

lemma ranked_items: "set (ranked t) = scorePersona t ` set (allPersonas t)"
  by (simp add: ranked_def)

lemma ranked_item_fixed: "y \<in> set (ranked t) \<Longrightarrow> scorePersona t (persona y) = y"
  by (auto simp: ranked_items)

lemma ranked_sorted: "sorted (map (\<lambda>item. - finalScore item) (ranked t))"
  by (simp add: ranked_def)

lemma select_length: "length (selectBestTargets t n) = min n (length (allPersonas t))"
  by (simp add: select_ranked ranked_def min.commute)

lemma select_subset: "set (selectBestTargets t n) \<subseteq> set (allPersonas t)"
proof
  fix p assume "p \<in> set (selectBestTargets t n)"
  then obtain y where y: "y \<in> set (take n (ranked t))" and p: "p = persona y"
    by (auto simp: select_ranked)
  from y have "y \<in> set (ranked t)" by (rule in_set_takeD)
  with p show "p \<in> set (allPersonas t)" by (auto simp: ranked_items)
qed

lemma select_distinct:
  assumes "distinct (allPersonas t)"
  shows "distinct (selectBestTargets t n)"
proof -
  have inj: "inj_on persona (set (ranked t))"
    by (rule inj_on_inverseI [where g = "scorePersona t"]) (rule ranked_item_fixed)
  have "inj_on (scorePersona t) (set (allPersonas t))"
    by (rule inj_on_inverseI [where g = persona]) simp
  with assms have "distinct (ranked t)"
    by (simp add: ranked_def distinct_map)
  then have d: "distinct (take n (ranked t))" by simp
  have "inj_on persona (set (take n (ranked t)))"
    by (rule inj_on_subset [OF inj]) (rule set_take_subset)
  with d show ?thesis by (simp add: select_ranked distinct_map)
qed

lemma select_sorted:
  "sorted (map (\<lambda>p. - finalScore (scorePersona t p)) (selectBestTargets t n))"
proof -
  have "map (\<lambda>p. - finalScore (scorePersona t p)) (selectBestTargets t n) =
      map (\<lambda>item. - finalScore item) (take n (ranked t))"
    by (auto simp: select_ranked ranked_item_fixed dest: in_set_takeD)
  also have "\<dots> = take n (map (\<lambda>item. - finalScore item) (ranked t))"
    by (simp add: take_map)
  finally show ?thesis
    by (simp add: sorted_wrt_take ranked_sorted)
qed

lemma select_top:
  assumes p: "p \<in> set (selectBestTargets t n)"
    and q: "q \<in> set (allPersonas t) - set (selectBestTargets t n)"
  shows "finalScore (scorePersona t q) \<le> finalScore (scorePersona t p)"
proof -
  from p obtain y where y: "y \<in> set (take n (ranked t))" and py: "p = persona y"
    by (auto simp: select_ranked)
  from y have yr: "y \<in> set (ranked t)" by (rule in_set_takeD)
  with py have sp: "scorePersona t p = y" by (simp add: ranked_item_fixed)
  from q have "scorePersona t q \<in> set (ranked t)" by (simp add: ranked_items)
  moreover from q have "scorePersona t q \<notin> set (take n (ranked t))"
    by (force simp: select_ranked)
  ultimately have zr: "scorePersona t q \<in> set (drop n (ranked t))"
    by (metis Un_iff append_take_drop_id set_append)
  have "map (\<lambda>item. - finalScore item) (ranked t) =
      map (\<lambda>item. - finalScore item) (take n (ranked t)) @
      map (\<lambda>item. - finalScore item) (drop n (ranked t))"
    by (metis append_take_drop_id map_append)
  with ranked_sorted [of t]
  have "sorted (map (\<lambda>item. - finalScore item) (take n (ranked t)) @
      map (\<lambda>item. - finalScore item) (drop n (ranked t)))"
    by simp
  then have "\<forall>a\<in>set (take n (ranked t)). \<forall>b\<in>set (drop n (ranked t)). - finalScore a \<le> - finalScore b"
    unfolding sorted_append by simp
  with y zr have "- finalScore y \<le> - finalScore (scorePersona t q)" by blast
  with sp show ?thesis by simp
qed

subsection \<open>The older copy\<close>

lemma explorationLoop_length:
  "length (explorationLoop rnd n remaining selected) = length selected + min n (length remaining)"
proof (induction n arbitrary: rnd remaining selected)
  case 0
  show ?case by simp
next
  case (Suc n)
  show ?case
  proof (cases "remaining = []")
    case True
    then show ?thesis by simp
  next
    case False
    then have pos: "0 < length remaining" by simp
    then have "rnd 0 mod length remaining < length remaining" by simp
    then have len: "length (take (rnd 0 mod length remaining) remaining @
        drop (Suc (rnd 0 mod length remaining)) remaining) = length remaining - 1"
      by simp
    have step: "Suc (min n (length remaining - 1)) = min (Suc n) (length remaining)"
      using pos by arith
    have "length (explorationLoop rnd (Suc n) remaining selected) =
        length (selected @ [remaining ! (rnd 0 mod length remaining)]) +
        min n (length (take (rnd 0 mod length remaining) remaining @
          drop (Suc (rnd 0 mod length remaining)) remaining))"
      using False by (simp only: explorationLoop.simps if_False Let_def Suc.IH)
    also have "\<dots> = length selected + Suc (min n (length remaining - 1))"
      by (simp only: len) simp
    finally show ?thesis by (simp only: step)
  qed
qed

lemma explorationLoop_set:
  "set (explorationLoop rnd n remaining selected) \<subseteq> set selected \<union> set remaining"
proof (induction n arbitrary: rnd remaining selected)
  case 0
  show ?case by simp
next
  case (Suc n)
  show ?case
  proof (cases "remaining = []")
    case True
    then show ?thesis by simp
  next
    case False
    let ?i = "rnd 0 mod length remaining"
    from False have i: "?i < length remaining" by simp
    have "set (take ?i remaining @ drop (Suc ?i) remaining) \<subseteq> set remaining"
      by (auto dest: in_set_takeD in_set_dropD)
    moreover from i have "remaining ! ?i \<in> set remaining" by simp
    ultimately show ?thesis
      using Suc.IH [of "\<lambda>i. rnd (Suc i)" "take ?i remaining @ drop (Suc ?i) remaining"
          "selected @ [remaining ! ?i]"] False
      by (auto simp: Let_def)
  qed
qed

lemma distinct_remove_nth:
  assumes "distinct xs" and "i < length xs"
  shows "distinct (take i xs @ drop (Suc i) xs) \<and> xs ! i \<notin> set (take i xs @ drop (Suc i) xs)"
proof -
  from assms(2) have "xs = take i xs @ xs ! i # drop (Suc i) xs"
    by (rule id_take_nth_drop)
  with assms(1) have "distinct (take i xs @ xs ! i # drop (Suc i) xs)" by simp
  then show ?thesis by auto
qed

lemma explorationLoop_distinct:
  assumes "distinct remaining" "distinct selected" "set selected \<inter> set remaining = {}"
  shows "distinct (explorationLoop rnd n remaining selected)"
  using assms
proof (induction n arbitrary: rnd remaining selected)
  case 0
  then show ?case by simp
next
  case (Suc n)
  show ?case
  proof (cases "remaining = []")
    case True
    with Suc.prems show ?thesis by simp
  next
    case False
    let ?i = "rnd 0 mod length remaining"
    let ?rest = "take ?i remaining @ drop (Suc ?i) remaining"
    from False have i: "?i < length remaining" by simp
    from distinct_remove_nth [OF Suc.prems(1) i]
    have d: "distinct ?rest" and out: "remaining ! ?i \<notin> set ?rest" by simp_all
    from i have mem: "remaining ! ?i \<in> set remaining" by simp
    have sub: "set ?rest \<subseteq> set remaining"
      by (auto dest: in_set_takeD in_set_dropD)
    from mem Suc.prems(2,3) have d2: "distinct (selected @ [remaining ! ?i])" by auto
    from out sub Suc.prems(3) have disj: "set (selected @ [remaining ! ?i]) \<inter> set ?rest = {}"
      by auto
    from Suc.IH [OF d d2 disj] False show ?thesis by (simp add: Let_def)
  qed
qed

lemma filter_not_in_prefix:
  assumes "set as \<inter> set bs = {}"
  shows "filter (\<lambda>p. p \<notin> set as) (as @ bs) = bs"
  using assms by (auto simp: filter_empty_conv filter_id_conv)

lemma filter_not_taken:
  assumes "distinct xs"
  shows "filter (\<lambda>p. p \<notin> set (take x xs)) xs = drop x xs"
proof -
  from assms have "set (take x xs) \<inter> set (drop x xs) = {}"
    by (simp add: set_take_disj_set_drop_if_distinct)
  from filter_not_in_prefix [OF this] show ?thesis by simp
qed

lemma old_unfold:
  assumes "distinct (allPersonas t)"
  shows "selectBestTargetsOld rnd t n =
     explorationLoop rnd (max 1 (n div 5))
       (drop (n - max 1 (n div 5)) (byVulnerability t))
       (take (n - max 1 (n div 5)) (byVulnerability t))"
proof -
  from assms have "distinct (byVulnerability t)" by (simp add: byVulnerability_def)
  then show ?thesis
    by (simp add: selectBestTargetsOld_def Let_def filter_not_taken flip: byVulnerability_def)
qed

lemma old_length:
  assumes "1 \<le> n" and "distinct (allPersonas t)"
  shows "length (selectBestTargetsOld rnd t n) = min n (length (allPersonas t))"
proof -
  define e where "e = max 1 (n div 5)"
  define x where "x = n - e"
  define l where "l = length (allPersonas t)"
  have len: "length (byVulnerability t) = l"
    by (simp add: byVulnerability_def l_def)
  from assms(1) have "n div 5 \<le> n" by simp
  with assms(1) have "e \<le> n" by (simp add: e_def)
  then have sum: "x + e = n" by (simp add: x_def)
  have "selectBestTargetsOld rnd t n =
      explorationLoop rnd e (drop x (byVulnerability t)) (take x (byVulnerability t))"
    unfolding e_def x_def by (rule old_unfold [OF assms(2)])
  then have "length (selectBestTargetsOld rnd t n) = min x l + min e (l - x)"
    by (simp add: explorationLoop_length len min.commute)
  also from sum have "\<dots> = min n l" by linarith
  finally show ?thesis by (simp add: l_def)
qed

lemma old_distinct:
  assumes "distinct (allPersonas t)"
  shows "distinct (selectBestTargetsOld rnd t n)"
proof -
  let ?x = "n - max 1 (n div 5)"
  from assms have d: "distinct (byVulnerability t)" by (simp add: byVulnerability_def)
  then have "distinct (drop ?x (byVulnerability t))" "distinct (take ?x (byVulnerability t))"
    "set (take ?x (byVulnerability t)) \<inter> set (drop ?x (byVulnerability t)) = {}"
    by (simp_all add: set_take_disj_set_drop_if_distinct)
  then show ?thesis
    by (simp add: old_unfold [OF assms] explorationLoop_distinct)
qed

lemma old_subset: "set (selectBestTargetsOld rnd t n) \<subseteq> set (allPersonas t)"
proof -
  have "set (selectBestTargetsOld rnd t n) \<subseteq>
      set (take (n - max 1 (n div 5)) (byVulnerability t)) \<union>
      set (filter (\<lambda>p. p \<notin> set (take (n - max 1 (n div 5)) (byVulnerability t))) (byVulnerability t))"
    unfolding selectBestTargetsOld_def Let_def byVulnerability_def
    by (rule explorationLoop_set)
  also have "\<dots> \<subseteq> set (byVulnerability t)"
    by (auto dest: in_set_takeD)
  also have "\<dots> = set (allPersonas t)"
    by (simp add: byVulnerability_def)
  finally show ?thesis .
qed

lemma old_zero: "selectBestTargetsOld (\<lambda>i. 0) tiedTrainer 0 = [personaOne]"
  by code_simp

subsection \<open>The example ledgers\<close>

lemma tied_scores:
  "itemAttempts (scorePersona tiedTrainer personaOne) = 0"
  "itemAttempts (scorePersona tiedTrainer personaTwo) = 3"
  "itemVulnerability (scorePersona tiedTrainer personaOne) = 40"
  "itemVulnerability (scorePersona tiedTrainer personaTwo) = 40"
  "finalScore (scorePersona tiedTrainer personaOne) = 60"
  "finalScore (scorePersona tiedTrainer personaTwo) = 70"
  by (simp_all add: scorePersona_def Let_def tiedTrainer_def personaOne_def personaTwo_def
      minAttemptsForLearning_def)

lemma tied_selection: "selectBestTargets tiedTrainer 1 = [personaTwo]"
  by code_simp

text \<open>
  Claim C8 (amended).  For every count \<open>n\<close>, \<open>selectBestTargets\<close> returns
  \<open>min n totalPersonas\<close> personas of the trainer, without duplicates when the personas are
  distinct, in non-increasing order of their final score, and no persona left out has a
  higher final score than one selected.  A persona with zero attempts has the final
  score 60 whatever its vulnerabilityScore; one with \<open>a \<ge> 3\<close> attempts has its
  vulnerabilityScore plus \<open>10 * (6 - a)\<close> while \<open>a < 6\<close>.  So with equal
  vulnerabilityScore \<open>v\<close> the zero-attempt persona is ranked at or above the other
  whenever \<open>v \<le> 30\<close>, or \<open>a \<ge> 6\<close> and \<open>v \<le> 60\<close>.  The older copy, whatever
  its random draws, returns distinct personas of the trainer when the personas are
  distinct, \<open>min n totalPersonas\<close> of them for \<open>n \<ge> 1\<close>.
\<close>

theorem C8_select_targets:
  "(distinct (allPersonas t) \<and> 1 \<le> n \<longrightarrow>
      length (selectBestTargetsOld rnd t n) = min n (length (allPersonas t))) \<and>
   (distinct (allPersonas t) \<longrightarrow> distinct (selectBestTargetsOld rnd t n)) \<and>
   set (selectBestTargetsOld rnd t n) \<subseteq> set (allPersonas t) \<and>
   length (selectBestTargets t n) = min n (length (allPersonas t)) \<and>
   set (selectBestTargets t n) \<subseteq> set (allPersonas t) \<and>
   (distinct (allPersonas t) \<longrightarrow> distinct (selectBestTargets t n)) \<and>
   sorted (map (\<lambda>p. - finalScore (scorePersona t p)) (selectBestTargets t n)) \<and>
   (p \<in> set (selectBestTargets t n) \<and> q \<in> set (allPersonas t) - set (selectBestTargets t n) \<longrightarrow>
      finalScore (scorePersona t q) \<le> finalScore (scorePersona t p)) \<and>
   (itemAttempts (scorePersona t p) = 0 \<longrightarrow> finalScore (scorePersona t p) = 60) \<and>
   (3 \<le> itemAttempts (scorePersona t q) \<longrightarrow>
      finalScore (scorePersona t q) =
        itemVulnerability (scorePersona t q) +
        (if itemAttempts (scorePersona t q) < 6
         then real (6 - itemAttempts (scorePersona t q)) * 10 else 0)) \<and>
   (itemAttempts (scorePersona t p) = 0 \<and> 3 \<le> itemAttempts (scorePersona t q) \<and>
    itemVulnerability (scorePersona t p) = itemVulnerability (scorePersona t q) \<and>
    (itemVulnerability (scorePersona t q) \<le> 30 \<or>
     6 \<le> itemAttempts (scorePersona t q) \<and> itemVulnerability (scorePersona t q) \<le> 60) \<longrightarrow>
      finalScore (scorePersona t q) \<le> finalScore (scorePersona t p))"
proof -
  have rank: "finalScore (scorePersona t q) \<le> finalScore (scorePersona t p)"
    if h: "itemAttempts (scorePersona t p) = 0 \<and> 3 \<le> itemAttempts (scorePersona t q) \<and>
      itemVulnerability (scorePersona t p) = itemVulnerability (scorePersona t q) \<and>
      (itemVulnerability (scorePersona t q) \<le> 30 \<or>
       6 \<le> itemAttempts (scorePersona t q) \<and> itemVulnerability (scorePersona t q) \<le> 60)"
  proof -
    from h have zero: "finalScore (scorePersona t p) = 60"
      by (simp add: scorePersona_zero_attempts)
    from h have other: "finalScore (scorePersona t q) =
        itemVulnerability (scorePersona t q) +
        (if itemAttempts (scorePersona t q) < 6
         then real (6 - itemAttempts (scorePersona t q)) * 10 else 0)"
      by (simp add: scorePersona_enough_attempts)
    from h have "6 - itemAttempts (scorePersona t q) \<le> 3"
      by arith
    then have "real (6 - itemAttempts (scorePersona t q)) * 10 \<le> 30"
      by simp
    with h zero other show ?thesis
      by (auto split: if_splits)
  qed
  have older: "(distinct (allPersonas t) \<and> 1 \<le> n \<longrightarrow>
        length (selectBestTargetsOld rnd t n) = min n (length (allPersonas t))) \<and>
      (distinct (allPersonas t) \<longrightarrow> distinct (selectBestTargetsOld rnd t n)) \<and>
      set (selectBestTargetsOld rnd t n) \<subseteq> set (allPersonas t)"
    using old_length [of n t rnd] old_distinct [of t rnd n] old_subset [of rnd t n] by blast
  have current: "length (selectBestTargets t n) = min n (length (allPersonas t)) \<and>
      set (selectBestTargets t n) \<subseteq> set (allPersonas t) \<and>
      (distinct (allPersonas t) \<longrightarrow> distinct (selectBestTargets t n)) \<and>
      sorted (map (\<lambda>p. - finalScore (scorePersona t p)) (selectBestTargets t n)) \<and>
      (p \<in> set (selectBestTargets t n) \<and> q \<in> set (allPersonas t) - set (selectBestTargets t n) \<longrightarrow>
         finalScore (scorePersona t q) \<le> finalScore (scorePersona t p))"
    using select_length [of t n] select_subset [of t n] select_distinct [of t n]
      select_sorted [of t n] select_top [of p t n q]
    by blast
  from older current scorePersona_zero_attempts [of t p] scorePersona_enough_attempts [of t q] rank
  show ?thesis by blast
qed

lemma fair_scores:
  "itemAttempts (scorePersona fairTrainer personaOne) = 0"
  "itemAttempts (scorePersona fairTrainer personaTwo) = 4"
  "itemVulnerability (scorePersona fairTrainer personaOne) = 20"
  "itemVulnerability (scorePersona fairTrainer personaTwo) = 20"
  by (simp_all add: scorePersona_def Let_def fairTrainer_def personaOne_def personaTwo_def
      minAttemptsForLearning_def)

lemma fair_selection: "selectBestTargets fairTrainer 1 = [personaOne]"
  by code_simp

theorem C8_select_targets_witness:
  "distinct (allPersonas fairTrainer) \<and>
   personaOne \<in> set (selectBestTargets fairTrainer 1) \<and>
   personaTwo \<in> set (allPersonas fairTrainer) - set (selectBestTargets fairTrainer 1) \<and>
   itemAttempts (scorePersona fairTrainer personaOne) = 0 \<and>
   3 \<le> itemAttempts (scorePersona fairTrainer personaTwo) \<and>
   itemVulnerability (scorePersona fairTrainer personaOne) =
     itemVulnerability (scorePersona fairTrainer personaTwo) \<and>
   itemVulnerability (scorePersona fairTrainer personaTwo) \<le> 30 \<and>
   length (selectBestTargets fairTrainer 1) = min 1 (length (allPersonas fairTrainer)) \<and>
   distinct (selectBestTargets fairTrainer 1) \<and>
   finalScore (scorePersona fairTrainer personaOne) = 60 \<and>
   finalScore (scorePersona fairTrainer personaTwo) = 20 + 20 \<and>
   finalScore (scorePersona fairTrainer personaTwo) \<le> finalScore (scorePersona fairTrainer personaOne) \<and>
   length (selectBestTargetsOld (\<lambda>i. 0) fairTrainer 1) = min 1 (length (allPersonas fairTrainer)) \<and>
   distinct (selectBestTargetsOld (\<lambda>i. 0) fairTrainer 1)"
proof -
  have ne: "personaOne \<noteq> personaTwo"
    by (simp add: personaOne_def personaTwo_def)
  have d: "distinct (allPersonas fairTrainer)"
    using ne by (simp add: fairTrainer_def)
  have mem: "personaOne \<in> set (selectBestTargets fairTrainer 1)"
    "personaTwo \<in> set (allPersonas fairTrainer) - set (selectBestTargets fairTrainer 1)"
    using ne fair_selection by (simp_all add: fairTrainer_def)
  note inst = C8_select_targets [of fairTrainer 1 "\<lambda>i. 0" personaOne personaTwo]
  from inst d have shape: "length (selectBestTargets fairTrainer 1) = min 1 (length (allPersonas fairTrainer)) \<and>
      distinct (selectBestTargets fairTrainer 1) \<and>
      length (selectBestTargetsOld (\<lambda>i. 0) fairTrainer 1) = min 1 (length (allPersonas fairTrainer)) \<and>
      distinct (selectBestTargetsOld (\<lambda>i. 0) fairTrainer 1)"
    by simp
  from inst have scores: "finalScore (scorePersona fairTrainer personaOne) = 60 \<and>
      finalScore (scorePersona fairTrainer personaTwo) = 20 + 20"
    by (simp add: fair_scores)
  from inst mem have "finalScore (scorePersona fairTrainer personaTwo)
      \<le> finalScore (scorePersona fairTrainer personaOne)"
    by blast
  with shape scores d mem show ?thesis
    by (simp add: fair_scores)
qed

text \<open>
  The ranking claimed without that bound fails: with \<open>vulnerabilityScore = 40\<close> for both,
  the persona with three attempts scores 70, the one with none 60, and a selection of
  one target takes the former.  Asked for no target, the older copy returns one.
\<close>

theorem C8_ranking_counterexample:
  "itemAttempts (scorePersona tiedTrainer personaOne) = 0 \<and>
   minAttemptsForLearning \<le> itemAttempts (scorePersona tiedTrainer personaTwo) \<and>
   itemVulnerability (scorePersona tiedTrainer personaOne) =
     itemVulnerability (scorePersona tiedTrainer personaTwo) \<and>
   finalScore (scorePersona tiedTrainer personaOne) < finalScore (scorePersona tiedTrainer personaTwo) \<and>
   selectBestTargets tiedTrainer 1 = [personaTwo] \<and>
   selectBestTargetsOld (\<lambda>i. 0) tiedTrainer 0 = [personaOne]"
  using tied_selection old_zero by (simp add: tied_scores minAttemptsForLearning_def)

end
